theory Spec2Isabelle
  imports Main "HOL-Library.Sublist"
begin

section \<open>Strings, quoting and errors\<close>

text \<open>
  Go strings are byte sequences; they are modelled as \<open>string\<close> (a list of 8-bit
  characters). The three characters that matter for quoting are named.
\<close>

definition squote :: char where
  "squote = CHR 0x27"

definition dquote :: char where
  "dquote = CHR 0x22"

definition backslash :: char where
  "backslash = CHR 0x5C"

text \<open>
  \<open>strings.Replace(s, old, new, -1)\<close> of the Go standard library, for a pattern
  \<open>old\<close> of one byte (the only way the program calls it): every occurrence of the
  byte is replaced, scanning left to right.
\<close>

definition strings_Replace :: "string \<Rightarrow> char \<Rightarrow> string \<Rightarrow> string" where
  "strings_Replace s old new = concat (map (\<lambda>c. if c = old then new else [c]) s)"

text \<open>helpers.go, \<open>pqQuoteLiteral\<close>: backslashes are doubled first, then single quotes.\<close>

definition pqQuoteLiteral :: "string \<Rightarrow> string" where
  "pqQuoteLiteral inp =
     (let in1 = strings_Replace inp backslash [backslash, backslash];
          in2 = strings_Replace in1 squote [squote, squote]
      in in2)"

text \<open>
  \<open>pq.QuoteIdentifier\<close> of the lib/pq driver: the name is cut at its first NUL byte,
  embedded double quotes are doubled, and the result is wrapped in double quotes.
\<close>

definition QuoteIdentifier :: "string \<Rightarrow> string" where
  "QuoteIdentifier name =
     (let name1 = takeWhile (\<lambda>c. c \<noteq> CHR 0x00) name
      in [dquote] @ strings_Replace name1 dquote [dquote, dquote] @ [dquote])"

text \<open>
  \<open>strings.ToUpper\<close> and \<open>strings.ToLower\<close> map every rune of a UTF-8 string. The
  ASCII letters are mapped bytewise. Four runes outside ASCII have an ASCII image and
  are mapped to it: U+0131 (bytes C4 B1) to \<open>I\<close> and U+017F (C5 BF) to \<open>S\<close> by
  \<open>ToUpper\<close>, U+0130 (C4 B0) to \<open>i\<close> and U+212A (E2 84 AA) to \<open>k\<close> by \<open>ToLower\<close>.
  Every other byte outside ASCII is kept: its image in Go is outside ASCII too, and
  the program only compares the result with an ASCII word, so the comparison is the
  same.
\<close>

definition toUpperChar :: "char \<Rightarrow> char" where
  "toUpperChar c =
     (let n = (of_char c :: nat) in if 97 \<le> n \<and> n \<le> 122 then char_of (n - 32) else c)"

definition toLowerChar :: "char \<Rightarrow> char" where
  "toLowerChar c =
     (let n = (of_char c :: nat) in if 65 \<le> n \<and> n \<le> 90 then char_of (n + 32) else c)"

fun strings_ToUpper :: "string \<Rightarrow> string" where
  "strings_ToUpper (a # b # cs) =
     (if a = CHR 0xC4 \<and> b = CHR 0xB1 then CHR ''I'' # strings_ToUpper cs
      else if a = CHR 0xC5 \<and> b = CHR 0xBF then CHR ''S'' # strings_ToUpper cs
      else toUpperChar a # strings_ToUpper (b # cs))"
| "strings_ToUpper [a] = [toUpperChar a]"
| "strings_ToUpper [] = []"

fun strings_ToLower :: "string \<Rightarrow> string" where
  "strings_ToLower (a # b # c # cs) =
     (if a = CHR 0xC4 \<and> b = CHR 0xB0 then CHR ''i'' # strings_ToLower (c # cs)
      else if a = CHR 0xE2 \<and> b = CHR 0x84 \<and> c = CHR 0xAA then CHR ''k'' # strings_ToLower cs
      else toLowerChar a # strings_ToLower (b # c # cs))"
| "strings_ToLower [a, b] =
     (if a = CHR 0xC4 \<and> b = CHR 0xB0 then [CHR ''i''] else [toLowerChar a, toLowerChar b])"
| "strings_ToLower [a] = [toLowerChar a]"
| "strings_ToLower [] = []"

text \<open>The \<open>%d\<close> verb of \<open>fmt.Sprintf\<close>: a signed decimal numeral.\<close>

fun nat_dec :: "nat \<Rightarrow> string" where
  "nat_dec n = (if n < 10 then [char_of (48 + n)] else nat_dec (n div 10) @ [char_of (48 + n mod 10)])"

declare nat_dec.simps [simp del]

definition sprint_d :: "int \<Rightarrow> string" where
  "sprint_d i = (if i < 0 then CHR ''-'' # nat_dec (nat (- i)) else nat_dec (nat i))"

text \<open>
  \<open>strings.Split(s, sep)\<close> for a separator of one byte: the pieces between the
  occurrences of the separator; a string without it is the only piece, also when empty.
\<close>

fun strings_Split :: "string \<Rightarrow> char \<Rightarrow> string list" where
  "strings_Split [] sep = [[]]"
| "strings_Split (c # cs) sep =
     (if c = sep then [] # strings_Split cs sep
      else (case strings_Split cs sep of
              [] \<Rightarrow> [[c]]
            | p # ps \<Rightarrow> (c # p) # ps))"

text \<open>\<open>strings.Join(elems, sep)\<close>.\<close>

fun strings_Join :: "string list \<Rightarrow> string \<Rightarrow> string" where
  "strings_Join [] sep = []"
| "strings_Join [x] sep = x"
| "strings_Join (x # y # ys) sep = x @ sep @ strings_Join (y # ys) sep"

text \<open>
  Errors are values. \<open>ErrNoRows\<close> is the sentinel \<open>sql.ErrNoRows\<close>; \<open>Errorf\<close> carries
  the rendered message of \<open>errors.New\<close> or \<open>fmt.Errorf\<close>; \<open>Wrapf\<close> is
  \<open>errwrap.Wrapf\<close>, a format around the error it wraps; \<open>DriverError\<close> is any other
  error the database driver reports.
\<close>

datatype error =
    ErrNoRows
  | DriverError string
  | Errorf string
  | Wrapf string error

section \<open>helpers.go\<close>

fun sliceContainsStr :: "string list \<Rightarrow> string \<Rightarrow> bool" where
  "sliceContainsStr [] needle = False"
| "sliceContainsStr (s # haystack) needle = (if s = needle then True else sliceContainsStr haystack needle)"

text \<open>The map \<open>allowedPrivileges\<close>: a lookup yields the list and whether the key is present.\<close>

definition allowedPrivileges :: "string \<Rightarrow> string list option" where
  "allowedPrivileges objectType =
     (if objectType = ''table'' then
        Some [''ALL'', ''SELECT'', ''INSERT'', ''UPDATE'', ''DELETE'', ''TRUNCATE'', ''REFERENCES'', ''TRIGGER'']
      else if objectType = ''sequence'' then
        Some [''ALL'', ''USAGE'', ''SELECT'', ''UPDATE'']
      else None)"

text \<open>The loop of \<open>validatePrivileges\<close>: the first privilege outside the list is reported.\<close>

fun validatePrivileges_loop :: "string list \<Rightarrow> string \<Rightarrow> string list \<Rightarrow> error option" where
  "validatePrivileges_loop allowed objectType [] = None"
| "validatePrivileges_loop allowed objectType (priv # privileges) =
     (if \<not> sliceContainsStr allowed priv then
        Some (Errorf (priv @ '' is not an allowed privilege for object type '' @ objectType))
      else validatePrivileges_loop allowed objectType privileges)"

definition validatePrivileges :: "string \<Rightarrow> string list \<Rightarrow> error option" where
  "validatePrivileges objectType privileges =
     (case allowedPrivileges objectType of
        None \<Rightarrow> Some (Errorf (''unknown object type '' @ objectType))
      | Some allowed \<Rightarrow> validatePrivileges_loop allowed objectType privileges)"

section \<open>The database connection\<close>

text \<open>
  What the program sends over a connection is recorded as a list of events: a statement
  passed to \<open>Exec\<close>, or a query with its arguments passed to \<open>Query\<close>. A transaction
  is open until it is committed or rolled back; \<open>commits\<close> counts the calls of
  \<open>Commit\<close>.
\<close>

datatype event = Exec string | Query string "string list"

datatype tx_status = Open | Committed | CommitFailed | RolledBack

record tx =
  events :: "event list"
  status :: tx_status
  commits :: nat

text \<open>The columns the role read-back scans from \<open>pg_roles\<close>.\<close>

record role_row =
  row_rolname :: string
  row_rolsuper :: bool
  row_rolinherit :: bool
  row_rolcreaterole :: bool
  row_rolcreatedb :: bool
  row_rolcanlogin :: bool
  row_rolreplication :: bool
  row_rolconnlimit :: int
  row_rolvaliduntil :: string
  row_role_names :: "string list"

text \<open>
  The server is the environment of the program: what it answers to each call. The
  answer to a statement or query inside a transaction may depend on everything the
  transaction has sent so far. Connections are named by their database.
  \<^item> \<open>begin_err\<close>: the error of \<open>db.Begin()\<close> on a connection, if any;
  \<^item> \<open>exec_err\<close>: the error of \<open>txn.Exec\<close>, if any;
  \<^item> \<open>commit_err\<close>: the error of \<open>txn.Commit()\<close>, if any;
  \<^item> \<open>query_rows\<close>: \<open>txn.Query\<close>, an error or the rows, each of which scans to a
    string or fails to scan;
  \<^item> \<open>scan_err\<close>: the error of \<open>QueryRow(sql, args).Scan(...)\<close> of an existence probe
    on a connection, \<open>ErrNoRows\<close> when the query has no row;
  \<^item> \<open>read_role\<close>, \<open>read_bypassrls\<close>, \<open>read_shadow\<close>, \<open>read_extension\<close>: the rows of
    the read-back queries;
  \<^item> \<open>NewClient_err\<close>, \<open>getDBConnection_err\<close>: the error of opening a connection pool
    on another database, if any.
\<close>

record server =
  begin_err :: "string \<Rightarrow> error option"
  exec_err :: "event list \<Rightarrow> string \<Rightarrow> error option"
  commit_err :: "event list \<Rightarrow> error option"
  query_rows :: "event list \<Rightarrow> string \<Rightarrow> string list \<Rightarrow> error + (error + string) list"
  scan_err :: "string \<Rightarrow> string \<Rightarrow> string list \<Rightarrow> error option"
  read_role :: "string \<Rightarrow> error + role_row"
  read_bypassrls :: "string \<Rightarrow> error + bool"
  read_shadow :: "string \<Rightarrow> error + string"
  read_extension :: "string \<Rightarrow> string \<Rightarrow> error + (string \<times> string)"
  NewClient_err :: "string \<Rightarrow> error option"
  getDBConnection_err :: "string \<Rightarrow> error option"

datatype feature = featureRLS | featureCreateRoleWith | featureReassignOwnedCurrentUser

text \<open>
  The fields of \<open>Client\<close> the program reads. \<open>featureSupported\<close> is declared outside
  the files at hand and is taken as given.
\<close>

record Client =
  databaseName :: string
  config_Username :: string
  version_String :: string
  featureSupported :: "feature \<Rightarrow> bool"

definition Begin :: "server \<Rightarrow> string \<Rightarrow> error + tx" where
  "Begin srv db =
     (case begin_err srv db of
        Some err \<Rightarrow> Inl err
      | None \<Rightarrow> Inr \<lparr>events = [], status = Open, commits = 0\<rparr>)"

definition tx_Exec :: "server \<Rightarrow> tx \<Rightarrow> string \<Rightarrow> error option \<times> tx" where
  "tx_Exec srv txn sql = (exec_err srv (events txn) sql, txn\<lparr>events := events txn @ [Exec sql]\<rparr>)"

definition tx_Query :: "server \<Rightarrow> tx \<Rightarrow> string \<Rightarrow> string list \<Rightarrow> (error + (error + string) list) \<times> tx" where
  "tx_Query srv txn sql args =
     (query_rows srv (events txn) sql args, txn\<lparr>events := events txn @ [Query sql args]\<rparr>)"

text \<open>
  \<open>Commit\<close> and \<open>Rollback\<close> of \<open>database/sql\<close>: both finish an open transaction and
  do nothing to a finished one, so a deferred \<open>Rollback\<close> after \<open>Commit\<close> changes
  nothing.
\<close>

definition tx_Commit :: "server \<Rightarrow> tx \<Rightarrow> error option \<times> tx" where
  "tx_Commit srv txn =
     (if status txn \<noteq> Open then (Some (DriverError ''sql: transaction has already been committed or rolled back''), txn)
      else (case commit_err srv (events txn) of
              None \<Rightarrow> (None, txn\<lparr>status := Committed, commits := commits txn + 1\<rparr>)
            | Some err \<Rightarrow> (Some err, txn\<lparr>status := CommitFailed, commits := commits txn + 1\<rparr>)))"

definition tx_Rollback :: "tx \<Rightarrow> tx" where
  "tx_Rollback txn = (if status txn = Open then txn\<lparr>status := RolledBack\<rparr> else txn)"

text \<open>
  \<open>schema.ResourceData\<close>: the identity, the attributes of the prior state and the
  attributes after the planned change. \<open>d.Get\<close> reads the latter, \<open>d.HasChange\<close>
  compares the two, \<open>d.GetChange\<close> returns both, \<open>d.Set\<close> writes the latter.
\<close>

record 'a ResourceData =
  d_Id :: string
  prior :: 'a
  planned :: 'a

definition SetId :: "string \<Rightarrow> 'a ResourceData \<Rightarrow> 'a ResourceData" where
  "SetId v d = d\<lparr>d_Id := v\<rparr>"

section \<open>helpers.go: transactions and existence probes\<close>

definition startTransaction :: "server \<Rightarrow> Client \<Rightarrow> string \<Rightarrow> error + tx" where
  "startTransaction srv client database =
     (if database \<noteq> [] \<and> database \<noteq> databaseName client then
        (case NewClient_err srv database of
           Some err \<Rightarrow> Inl err
         | None \<Rightarrow>
            (case Begin srv database of
               Inl err \<Rightarrow> Inl (Wrapf ''could not start transaction: {{err}}'' err)
             | Inr txn \<Rightarrow> Inr txn))
      else
        (case Begin srv (databaseName client) of
           Inl err \<Rightarrow> Inl (Wrapf ''could not start transaction: {{err}}'' err)
         | Inr txn \<Rightarrow> Inr txn))"

definition dbExists :: "server \<Rightarrow> string \<Rightarrow> string \<Rightarrow> bool \<times> error option" where
  "dbExists srv conn dbname =
     (let err = scan_err srv conn ''SELECT datname FROM pg_database WHERE datname=$1'' [dbname] in
      if err = Some ErrNoRows then (False, None)
      else if err \<noteq> None then
        (False, Some (Wrapf ''could not check if database exists: {{err}}'' (the err)))
      else (True, None))"

definition roleExists :: "server \<Rightarrow> string \<Rightarrow> string \<Rightarrow> bool \<times> error option" where
  "roleExists srv conn rolname =
     (let err = scan_err srv conn ''SELECT 1 FROM pg_roles WHERE rolname=$1'' [rolname] in
      if err = Some ErrNoRows then (False, None)
      else if err \<noteq> None then
        (False, Some (Wrapf ''could not check if role exists: {{err}}'' (the err)))
      else (True, None))"

definition schemaExists :: "server \<Rightarrow> string \<Rightarrow> string \<Rightarrow> bool \<times> error option" where
  "schemaExists srv conn schemaname =
     (let err = scan_err srv conn ''SELECT 1 FROM pg_namespace WHERE nspname=$1'' [schemaname] in
      if err = Some ErrNoRows then (False, None)
      else if err \<noteq> None then
        (False, Some (Wrapf ''could not check if schema exists: {{err}}'' (the err)))
      else (True, None))"

section \<open>The role resource\<close>

text \<open>The attribute keys of the role resource, named as the program's constants.\<close>

datatype role_attr =
    roleBypassRLSAttr
  | roleConnLimitAttr
  | roleCreateDBAttr
  | roleCreateRoleAttr
  | roleEncryptedPassAttr
  | roleInheritAttr
  | roleLoginAttr
  | roleNameAttr
  | rolePasswordAttr
  | roleReplicationAttr
  | roleSkipDropRoleAttr
  | roleSkipReassignOwnedAttr
  | roleSuperuserAttr
  | roleValidUntilAttr
  | roleRolesAttr
  | roleDepEncryptedAttr

text \<open>
  The attribute values, typed as the resource schema types them. \<open>v_roles\<close> is the
  set of granted roles in the order \<open>Set.List()\<close> enumerates it, without duplicates.
\<close>

record role_attrs =
  v_name :: string
  v_password :: string
  v_encrypted :: string
  v_roles :: "string list"
  v_encrypted_password :: bool
  v_valid_until :: string
  v_connection_limit :: int
  v_superuser :: bool
  v_create_database :: bool
  v_create_role :: bool
  v_inherit :: bool
  v_login :: bool
  v_replication :: bool
  v_bypass_row_level_security :: bool
  v_skip_drop_role :: bool
  v_skip_reassign_owned :: bool

text \<open>
  \<open>d.Get(key).(string)\<close>, \<open>d.Get(key).(bool)\<close> and \<open>d.Get(key).(int)\<close>. The program
  reads each key at its schema type only; the last equation of each function is never
  reached by it.
\<close>

fun GetString :: "role_attrs \<Rightarrow> role_attr \<Rightarrow> string" where
  "GetString a roleNameAttr = v_name a"
| "GetString a rolePasswordAttr = v_password a"
| "GetString a roleValidUntilAttr = v_valid_until a"
| "GetString a roleDepEncryptedAttr = v_encrypted a"
| "GetString a _ = []"

fun GetBool :: "role_attrs \<Rightarrow> role_attr \<Rightarrow> bool" where
  "GetBool a roleBypassRLSAttr = v_bypass_row_level_security a"
| "GetBool a roleCreateDBAttr = v_create_database a"
| "GetBool a roleCreateRoleAttr = v_create_role a"
| "GetBool a roleEncryptedPassAttr = v_encrypted_password a"
| "GetBool a roleInheritAttr = v_inherit a"
| "GetBool a roleLoginAttr = v_login a"
| "GetBool a roleReplicationAttr = v_replication a"
| "GetBool a roleSkipDropRoleAttr = v_skip_drop_role a"
| "GetBool a roleSkipReassignOwnedAttr = v_skip_reassign_owned a"
| "GetBool a roleSuperuserAttr = v_superuser a"
| "GetBool a _ = False"

fun GetInt :: "role_attrs \<Rightarrow> role_attr \<Rightarrow> int" where
  "GetInt a roleConnLimitAttr = v_connection_limit a"
| "GetInt a _ = 0"

subsection \<open>resourcePostgreSQLRoleCreate\<close>

definition stringOpts :: "(role_attr \<times> string) list" where
  "stringOpts = [(rolePasswordAttr, ''PASSWORD''), (roleValidUntilAttr, ''VALID UNTIL'')]"

definition intOpts :: "(role_attr \<times> string) list" where
  "intOpts = [(roleConnLimitAttr, ''CONNECTION LIMIT'')]"

text \<open>The table \<open>boolOpts\<close>: key, keyword when true, keyword when false.\<close>

definition boolOpts :: "Client \<Rightarrow> (role_attr \<times> string \<times> string) list" where
  "boolOpts c =
     [(roleSuperuserAttr, ''CREATEDB'', ''NOCREATEDB''),
      (roleCreateRoleAttr, ''CREATEROLE'', ''NOCREATEROLE''),
      (roleInheritAttr, ''INHERIT'', ''NOINHERIT''),
      (roleLoginAttr, ''LOGIN'', ''NOLOGIN''),
      (roleReplicationAttr, ''REPLICATION'', ''NOREPLICATION'')]
     @ (if featureSupported c featureRLS
        then [(roleBypassRLSAttr, ''BYPASSRLS'', ''NOBYPASSRLS'')] else [])"

text \<open>
  One round of the loop over \<open>stringOpts\<close>: the options it appends. \<open>d.GetOk\<close> of a
  string attribute is not ok when the value is empty.
\<close>

definition stringOpt :: "role_attrs \<Rightarrow> role_attr \<times> string \<Rightarrow> string list" where
  "stringOpt a opt =
     (let hclKey = fst opt; sqlKey = snd opt; v = GetString a hclKey; ok = (v \<noteq> []) in
      if \<not> ok then []
      else if v \<noteq> [] then
        (if hclKey = rolePasswordAttr then
           (if strings_ToUpper v = ''NULL'' then [''PASSWORD NULL'']
            else [if GetBool a roleEncryptedPassAttr then ''ENCRYPTED'' else ''UNENCRYPTED'',
                  sqlKey @ '' '' @ [squote] @ pqQuoteLiteral v @ [squote]])
         else if hclKey = roleValidUntilAttr then
           (if v = [] \<or> strings_ToLower v = ''infinity''
            then [sqlKey @ '' '' @ [squote] @ ''infinity'' @ [squote]]
            else [sqlKey @ '' '' @ QuoteIdentifier v])
         else [sqlKey @ '' '' @ QuoteIdentifier v])
      else [])"

definition intOpt :: "role_attrs \<Rightarrow> role_attr \<times> string \<Rightarrow> string list" where
  "intOpt a opt = [snd opt @ '' '' @ sprint_d (GetInt a (fst opt))]"

definition boolOpt :: "role_attrs \<Rightarrow> role_attr \<times> string \<times> string \<Rightarrow> string list" where
  "boolOpt a opt =
     (let hclKey = fst opt; sqlKeyEnable = fst (snd opt); sqlKeyDisable = snd (snd opt) in
      if hclKey = roleEncryptedPassAttr then []
      else [if GetBool a hclKey then sqlKeyEnable else sqlKeyDisable])"

definition createOpts :: "Client \<Rightarrow> role_attrs \<Rightarrow> string list" where
  "createOpts c a =
     concat (map (stringOpt a) stringOpts) @ concat (map (intOpt a) intOpts)
       @ concat (map (boolOpt a) (boolOpts c))"

text \<open>The statement \<open>resourcePostgreSQLRoleCreate\<close> builds.\<close>

definition createRoleSQL :: "Client \<Rightarrow> role_attrs \<Rightarrow> string" where
  "createRoleSQL c a =
     (let opts = createOpts c a;
          roleName = GetString a roleNameAttr;
          createStr = strings_Join opts '' '';
          createStr1 =
            (if length opts > 0 then
               (if featureSupported c featureCreateRoleWith then '' WITH '' @ createStr
                else '' '' @ createStr)
             else createStr)
      in ''CREATE ROLE '' @ QuoteIdentifier roleName @ createStr1)"

text \<open>\<open>grantRoles\<close>: one GRANT per role of the desired set, stopping at the first error.\<close>

fun grantRoles_loop :: "server \<Rightarrow> string \<Rightarrow> string list \<Rightarrow> tx \<Rightarrow> error option \<times> tx" where
  "grantRoles_loop srv role [] txn = (None, txn)"
| "grantRoles_loop srv role (grantingRole # rest) txn =
     (case tx_Exec srv txn (''GRANT '' @ QuoteIdentifier grantingRole @ '' TO '' @ QuoteIdentifier role) of
        (Some err, txn1) \<Rightarrow>
          (Some (Wrapf (''could not grant role '' @ grantingRole @ '' to '' @ role @ '': {{err}}'') err), txn1)
      | (None, txn1) \<Rightarrow> grantRoles_loop srv role rest txn1)"

definition grantRoles :: "server \<Rightarrow> role_attrs ResourceData \<Rightarrow> tx \<Rightarrow> error option \<times> tx" where
  "grantRoles srv d txn =
     (let role = GetString (planned d) roleNameAttr
      in grantRoles_loop srv role (v_roles (planned d)) txn)"

text \<open>
  \<open>pgArrayToSet\<close>: the array as a set of strings.
\<close>

definition pgArrayToSet :: "string list \<Rightarrow> string list" where
  "pgArrayToSet arr = remdups arr"

text \<open>
  \<open>resourcePostgreSQLRoleReadImpl\<close>: reads the role named by the identity back from
  the catalog into the resource data.
\<close>

definition resourcePostgreSQLRoleReadImpl ::
    "server \<Rightarrow> Client \<Rightarrow> role_attrs ResourceData \<Rightarrow> error option \<times> role_attrs ResourceData" where
  "resourcePostgreSQLRoleReadImpl srv c d =
     (let roleID = d_Id d in
      case read_role srv roleID of
        Inl err \<Rightarrow>
          (if err = ErrNoRows then (None, SetId [] d)
           else (Some (Wrapf ''Error reading ROLE: {{err}}'' err), d))
      | Inr row \<Rightarrow>
          (let a = planned d;
               a1 = a\<lparr>v_name := row_rolname row,
                       v_connection_limit := row_rolconnlimit row,
                       v_create_database := row_rolcreatedb row,
                       v_create_role := row_rolcreaterole row,
                       v_encrypted_password := True,
                       v_inherit := row_rolinherit row,
                       v_login := row_rolcanlogin row,
                       v_replication := row_rolreplication row,
                       v_skip_drop_role := v_skip_drop_role a,
                       v_skip_reassign_owned := v_skip_reassign_owned a,
                       v_superuser := row_rolsuper row,
                       v_valid_until := row_rolvaliduntil row,
                       v_roles := pgArrayToSet (row_role_names row)\<rparr>;
               d1 = d\<lparr>planned := a1\<rparr>
           in
           (case (if featureSupported c featureRLS
                  then (case read_bypassrls srv roleID of
                          Inl err \<Rightarrow> Inl (Wrapf ''Error reading RLS properties for ROLE: {{err}}'' err)
                        | Inr roleBypassRLS \<Rightarrow>
                            Inr (d1\<lparr>planned := (planned d1)\<lparr>v_bypass_row_level_security := roleBypassRLS\<rparr>\<rparr>))
                  else Inr d1) of
              Inl err \<Rightarrow> (Some err, d1)
            | Inr d2 \<Rightarrow>
               (let d3 = SetId (row_rolname row) d2 in
                if \<not> row_rolsuper row then (None, d3)
                else
                  (case read_shadow srv roleID of
                     Inl err \<Rightarrow>
                       (if err = ErrNoRows then
                          (Some (Wrapf (''PostgreSQL role ('' @ roleID @ '') not found in shadow database: {{err}}'') err), d3)
                        else (Some (Wrapf ''Error reading role: {{err}}'' err), d3))
                   | Inr rolePassword \<Rightarrow>
                       (None, d3\<lparr>planned := (planned d3)\<lparr>v_password := rolePassword\<rparr>\<rparr>))))))"

text \<open>
  The operations return the error (or nil), the resource data as they leave it, and the
  transaction as the deferred \<open>Rollback\<close> leaves it (none when it could not begin).
\<close>

type_synonym 'a outcome = "error option \<times> 'a ResourceData \<times> tx option"

definition resourcePostgreSQLRoleCreate ::
    "server \<Rightarrow> Client \<Rightarrow> role_attrs ResourceData \<Rightarrow> role_attrs outcome" where
  "resourcePostgreSQLRoleCreate srv c d =
     (case Begin srv (databaseName c) of
        Inl err \<Rightarrow> (Some err, d, None)
      | Inr txn \<Rightarrow>
         (let roleName = GetString (planned d) roleNameAttr;
              sql = createRoleSQL c (planned d)
          in case tx_Exec srv txn sql of
               (Some err, txn1) \<Rightarrow>
                 (Some (Wrapf (''error creating role '' @ roleName @ '': {{err}}'') err), d, Some (tx_Rollback txn1))
             | (None, txn1) \<Rightarrow>
                (case grantRoles srv d txn1 of
                   (Some err, txn2) \<Rightarrow> (Some err, d, Some (tx_Rollback txn2))
                 | (None, txn2) \<Rightarrow>
                    (case tx_Commit srv txn2 of
                       (Some err, txn3) \<Rightarrow>
                         (Some (Wrapf ''could not commit transaction: {{err}}'' err), d, Some (tx_Rollback txn3))
                     | (None, txn3) \<Rightarrow>
                        (let d1 = SetId roleName d;
                             r = resourcePostgreSQLRoleReadImpl srv c d1
                         in (fst r, snd r, Some (tx_Rollback txn3)))))))"

subsection \<open>resourcePostgreSQLRoleDelete\<close>

text \<open>The list \<open>queries\<close> that \<open>resourcePostgreSQLRoleDelete\<close> builds.\<close>

definition deleteQueries :: "Client \<Rightarrow> role_attrs \<Rightarrow> string list" where
  "deleteQueries c a =
     (let roleName = GetString a roleNameAttr in
      (if \<not> GetBool a roleSkipReassignOwnedAttr then
         [if featureSupported c featureReassignOwnedCurrentUser
          then ''REASSIGN OWNED BY '' @ QuoteIdentifier roleName @ '' TO CURRENT_USER''
          else ''REASSIGN OWNED BY '' @ QuoteIdentifier roleName @ '' TO '' @ QuoteIdentifier (config_Username c),
          ''DROP OWNED BY '' @ QuoteIdentifier roleName]
       else [])
      @ (if \<not> GetBool a roleSkipDropRoleAttr
         then [''DROP ROLE '' @ QuoteIdentifier roleName] else []))"

fun deleteRole_loop :: "server \<Rightarrow> string list \<Rightarrow> tx \<Rightarrow> error option \<times> tx" where
  "deleteRole_loop srv [] txn = (None, txn)"
| "deleteRole_loop srv (query # rest) txn =
     (case tx_Exec srv txn query of
        (Some err, txn1) \<Rightarrow> (Some (Wrapf ''Error deleting role: {{err}}'' err), txn1)
      | (None, txn1) \<Rightarrow> deleteRole_loop srv rest txn1)"

definition resourcePostgreSQLRoleDelete ::
    "server \<Rightarrow> Client \<Rightarrow> role_attrs ResourceData \<Rightarrow> role_attrs outcome" where
  "resourcePostgreSQLRoleDelete srv c d =
     (case Begin srv (databaseName c) of
        Inl err \<Rightarrow> (Some err, d, None)
      | Inr txn \<Rightarrow>
         (let queries = deleteQueries c (planned d) in
          if length queries > 0 then
            (case deleteRole_loop srv queries txn of
               (Some err, txn1) \<Rightarrow> (Some err, d, Some (tx_Rollback txn1))
             | (None, txn1) \<Rightarrow>
                (case tx_Commit srv txn1 of
                   (Some err, txn2) \<Rightarrow>
                     (Some (Wrapf ''Error committing schema: {{err}}'' err), d, Some (tx_Rollback txn2))
                 | (None, txn2) \<Rightarrow> (None, SetId [] d, Some (tx_Rollback txn2))))
          else (None, SetId [] d, Some (tx_Rollback txn))))"

definition resourcePostgreSQLRoleExists ::
    "server \<Rightarrow> Client \<Rightarrow> role_attrs ResourceData \<Rightarrow> bool \<times> error option" where
  "resourcePostgreSQLRoleExists srv c d =
     (let err = scan_err srv (databaseName c)
                  ''SELECT rolname FROM pg_catalog.pg_roles WHERE rolname=$1'' [d_Id d] in
      if err = Some ErrNoRows then (False, None)
      else if err \<noteq> None then (False, err)
      else (True, None))"

subsection \<open>resourcePostgreSQLRoleUpdate\<close>

definition HasChange :: "'a ResourceData \<Rightarrow> ('a \<Rightarrow> 'b) \<Rightarrow> bool" where
  "HasChange d get = (get (prior d) \<noteq> get (planned d))"

definition GetChange :: "'a ResourceData \<Rightarrow> ('a \<Rightarrow> 'b) \<Rightarrow> 'b \<times> 'b" where
  "GetChange d get = (get (prior d), get (planned d))"

text \<open>\<open>setRoleName\<close> is the one step that also writes the resource data: the identity.\<close>

definition setRoleName ::
    "server \<Rightarrow> role_attrs ResourceData \<Rightarrow> tx \<Rightarrow> error option \<times> role_attrs ResourceData \<times> tx" where
  "setRoleName srv d txn =
     (if \<not> HasChange d (\<lambda>a. GetString a roleNameAttr) then (None, d, txn)
      else
        (let ch = GetChange d (\<lambda>a. GetString a roleNameAttr); oraw = fst ch; n = snd ch in
         if n = [] then (Some (Errorf ''Error setting role name to an empty string''), d, txn)
         else
           (let sql = ''ALTER ROLE '' @ QuoteIdentifier oraw @ '' RENAME TO '' @ QuoteIdentifier n in
            case tx_Exec srv txn sql of
              (Some err, txn1) \<Rightarrow> (Some (Wrapf ''Error updating role NAME: {{err}}'' err), d, txn1)
            | (None, txn1) \<Rightarrow> (None, SetId n d, txn1))))"

definition setRoleBypassRLS :: "server \<Rightarrow> Client \<Rightarrow> role_attrs ResourceData \<Rightarrow> tx \<Rightarrow> error option \<times> tx" where
  "setRoleBypassRLS srv c d txn =
     (if \<not> HasChange d (\<lambda>a. GetBool a roleBypassRLSAttr) then (None, txn)
      else if \<not> featureSupported c featureRLS then
        (Some (Errorf (''PostgreSQL client is talking with a server ('' @ [dquote] @ version_String c @ [dquote]
                 @ '') that does not support PostgreSQL Row-Level Security'')), txn)
      else
        (let bypassRLS = GetBool (planned d) roleBypassRLSAttr;
             tok = (if bypassRLS then ''BYPASSRLS'' else ''NOBYPASSRLS'');
             roleName = GetString (planned d) roleNameAttr;
             sql = ''ALTER ROLE '' @ QuoteIdentifier roleName @ '' WITH '' @ tok
         in case tx_Exec srv txn sql of
              (Some err, txn1) \<Rightarrow> (Some (Wrapf ''Error updating role BYPASSRLS: {{err}}'' err), txn1)
            | (None, txn1) \<Rightarrow> (None, txn1)))"

definition setRoleConnLimit :: "server \<Rightarrow> role_attrs ResourceData \<Rightarrow> tx \<Rightarrow> error option \<times> tx" where
  "setRoleConnLimit srv d txn =
     (if \<not> HasChange d (\<lambda>a. GetInt a roleConnLimitAttr) then (None, txn)
      else
        (let connLimit = GetInt (planned d) roleConnLimitAttr;
             roleName = GetString (planned d) roleNameAttr;
             sql = ''ALTER ROLE '' @ QuoteIdentifier roleName @ '' CONNECTION LIMIT '' @ sprint_d connLimit
         in case tx_Exec srv txn sql of
              (Some err, txn1) \<Rightarrow> (Some (Wrapf ''Error updating role CONNECTION LIMIT: {{err}}'' err), txn1)
            | (None, txn1) \<Rightarrow> (None, txn1)))"

definition setRoleCreateDB :: "server \<Rightarrow> role_attrs ResourceData \<Rightarrow> tx \<Rightarrow> error option \<times> tx" where
  "setRoleCreateDB srv d txn =
     (if \<not> HasChange d (\<lambda>a. GetBool a roleCreateDBAttr) then (None, txn)
      else
        (let createDB = GetBool (planned d) roleCreateDBAttr;
             tok = (if createDB then ''CREATEDB'' else ''NOCREATEDB'');
             roleName = GetString (planned d) roleNameAttr;
             sql = ''ALTER ROLE '' @ QuoteIdentifier roleName @ '' WITH '' @ tok
         in case tx_Exec srv txn sql of
              (Some err, txn1) \<Rightarrow> (Some (Wrapf ''Error updating role CREATEDB: {{err}}'' err), txn1)
            | (None, txn1) \<Rightarrow> (None, txn1)))"

definition setRoleCreateRole :: "server \<Rightarrow> role_attrs ResourceData \<Rightarrow> tx \<Rightarrow> error option \<times> tx" where
  "setRoleCreateRole srv d txn =
     (if \<not> HasChange d (\<lambda>a. GetBool a roleCreateRoleAttr) then (None, txn)
      else
        (let createRole = GetBool (planned d) roleCreateRoleAttr;
             tok = (if createRole then ''CREATEROLE'' else ''NOCREATEROLE'');
             roleName = GetString (planned d) roleNameAttr;
             sql = ''ALTER ROLE '' @ QuoteIdentifier roleName @ '' WITH '' @ tok
         in case tx_Exec srv txn sql of
              (Some err, txn1) \<Rightarrow> (Some (Wrapf ''Error updating role CREATEROLE: {{err}}'' err), txn1)
            | (None, txn1) \<Rightarrow> (None, txn1)))"

definition setRoleInherit :: "server \<Rightarrow> role_attrs ResourceData \<Rightarrow> tx \<Rightarrow> error option \<times> tx" where
  "setRoleInherit srv d txn =
     (if \<not> HasChange d (\<lambda>a. GetBool a roleInheritAttr) then (None, txn)
      else
        (let inherit = GetBool (planned d) roleInheritAttr;
             tok = (if inherit then ''INHERIT'' else ''NOINHERIT'');
             roleName = GetString (planned d) roleNameAttr;
             sql = ''ALTER ROLE '' @ QuoteIdentifier roleName @ '' WITH '' @ tok
         in case tx_Exec srv txn sql of
              (Some err, txn1) \<Rightarrow> (Some (Wrapf ''Error updating role INHERIT: {{err}}'' err), txn1)
            | (None, txn1) \<Rightarrow> (None, txn1)))"

definition setRoleLogin :: "server \<Rightarrow> role_attrs ResourceData \<Rightarrow> tx \<Rightarrow> error option \<times> tx" where
  "setRoleLogin srv d txn =
     (if \<not> HasChange d (\<lambda>a. GetBool a roleLoginAttr) then (None, txn)
      else
        (let login = GetBool (planned d) roleLoginAttr;
             tok = (if login then ''LOGIN'' else ''NOLOGIN'');
             roleName = GetString (planned d) roleNameAttr;
             sql = ''ALTER ROLE '' @ QuoteIdentifier roleName @ '' WITH '' @ tok
         in case tx_Exec srv txn sql of
              (Some err, txn1) \<Rightarrow> (Some (Wrapf ''Error updating role LOGIN: {{err}}'' err), txn1)
            | (None, txn1) \<Rightarrow> (None, txn1)))"

definition setRoleReplication :: "server \<Rightarrow> role_attrs ResourceData \<Rightarrow> tx \<Rightarrow> error option \<times> tx" where
  "setRoleReplication srv d txn =
     (if \<not> HasChange d (\<lambda>a. GetBool a roleReplicationAttr) then (None, txn)
      else
        (let replication = GetBool (planned d) roleReplicationAttr;
             tok = (if replication then ''REPLICATION'' else ''NOREPLICATION'');
             roleName = GetString (planned d) roleNameAttr;
             sql = ''ALTER ROLE '' @ QuoteIdentifier roleName @ '' WITH '' @ tok
         in case tx_Exec srv txn sql of
              (Some err, txn1) \<Rightarrow> (Some (Wrapf ''Error updating role REPLICATION: {{err}}'' err), txn1)
            | (None, txn1) \<Rightarrow> (None, txn1)))"

definition setRoleSuperuser :: "server \<Rightarrow> role_attrs ResourceData \<Rightarrow> tx \<Rightarrow> error option \<times> tx" where
  "setRoleSuperuser srv d txn =
     (if \<not> HasChange d (\<lambda>a. GetBool a roleSuperuserAttr) then (None, txn)
      else
        (let superuser = GetBool (planned d) roleSuperuserAttr;
             tok = (if superuser then ''SUPERUSER'' else ''NOSUPERUSER'');
             roleName = GetString (planned d) roleNameAttr;
             sql = ''ALTER ROLE '' @ QuoteIdentifier roleName @ '' WITH '' @ tok
         in case tx_Exec srv txn sql of
              (Some err, txn1) \<Rightarrow> (Some (Wrapf ''Error updating role SUPERUSER: {{err}}'' err), txn1)
            | (None, txn1) \<Rightarrow> (None, txn1)))"

definition setRoleValidUntil :: "server \<Rightarrow> role_attrs ResourceData \<Rightarrow> tx \<Rightarrow> error option \<times> tx" where
  "setRoleValidUntil srv d txn =
     (if \<not> HasChange d (\<lambda>a. GetString a roleValidUntilAttr) then (None, txn)
      else
        (let validUntil = GetString (planned d) roleValidUntilAttr in
         if validUntil = [] then (None, txn)
         else
           (let validUntil1 = (if strings_ToLower validUntil = ''infinity'' then ''infinity'' else validUntil);
                roleName = GetString (planned d) roleNameAttr;
                sql = ''ALTER ROLE '' @ QuoteIdentifier roleName @ '' VALID UNTIL '' @ [squote]
                        @ pqQuoteLiteral validUntil1 @ [squote]
            in case tx_Exec srv txn sql of
                 (Some err, txn1) \<Rightarrow> (Some (Wrapf ''Error updating role VALID UNTIL: {{err}}'' err), txn1)
               | (None, txn1) \<Rightarrow> (None, txn1))))"

text \<open>
  \<open>revokeRoles\<close>: the granted roles are read from the catalog first (the loop over
  \<open>rows.Next()\<close>), then one REVOKE is sent per role read.
\<close>

fun scanRows :: "string \<Rightarrow> (error + string) list \<Rightarrow> string list \<Rightarrow> error + string list" where
  "scanRows role [] grantedRoles = Inr grantedRoles"
| "scanRows role (row # rows) grantedRoles =
     (case row of
        Inl err \<Rightarrow> Inl (Wrapf (''could not scan role name for role '' @ role @ '': {{err}}'') err)
      | Inr grantedRole \<Rightarrow> scanRows role rows (grantedRoles @ [grantedRole]))"

fun revokeRoles_loop :: "server \<Rightarrow> string \<Rightarrow> string list \<Rightarrow> tx \<Rightarrow> error option \<times> tx" where
  "revokeRoles_loop srv role [] txn = (None, txn)"
| "revokeRoles_loop srv role (grantedRole # rest) txn =
     (case tx_Exec srv txn (''REVOKE '' @ QuoteIdentifier grantedRole @ '' FROM '' @ QuoteIdentifier role) of
        (Some err, txn1) \<Rightarrow>
          (Some (Wrapf (''could not revoke role '' @ grantedRole @ '' from '' @ role @ '': {{err}}'') err), txn1)
      | (None, txn1) \<Rightarrow> revokeRoles_loop srv role rest txn1)"

definition applicable_roles_query :: string where
  "applicable_roles_query = ''SELECT role_name FROM information_schema.applicable_roles WHERE grantee = $1''"

definition revokeRoles :: "server \<Rightarrow> role_attrs ResourceData \<Rightarrow> tx \<Rightarrow> error option \<times> tx" where
  "revokeRoles srv d txn =
     (let role = GetString (planned d) roleNameAttr in
      case tx_Query srv txn applicable_roles_query [role] of
        (Inl err, txn1) \<Rightarrow>
          (Some (Wrapf (''could not get roles list for role '' @ role @ '': {{err}}'') err), txn1)
      | (Inr rows, txn1) \<Rightarrow>
          (case scanRows role rows [] of
             Inl err \<Rightarrow> (Some err, txn1)
           | Inr grantedRoles \<Rightarrow> revokeRoles_loop srv role grantedRoles txn1))"

text \<open>
  The steps of \<open>resourcePostgreSQLRoleUpdate\<close> after \<open>setRoleName\<close>, in the order of
  the source; each returns at the first error.
\<close>

definition andThen ::
    "(tx \<Rightarrow> error option \<times> tx) \<Rightarrow> (tx \<Rightarrow> error option \<times> tx) \<Rightarrow> tx \<Rightarrow> error option \<times> tx" where
  "andThen f g txn = (case f txn of (Some err, txn1) \<Rightarrow> (Some err, txn1) | (None, txn1) \<Rightarrow> g txn1)"

definition roleUpdateSteps :: "server \<Rightarrow> Client \<Rightarrow> role_attrs ResourceData \<Rightarrow> tx \<Rightarrow> error option \<times> tx" where
  "roleUpdateSteps srv c d =
     andThen (setRoleBypassRLS srv c d)
    (andThen (setRoleConnLimit srv d)
    (andThen (setRoleCreateDB srv d)
    (andThen (setRoleCreateRole srv d)
    (andThen (setRoleInherit srv d)
    (andThen (setRoleLogin srv d)
    (andThen (setRoleReplication srv d)
    (andThen (setRoleSuperuser srv d)
    (andThen (setRoleValidUntil srv d)
    (andThen (revokeRoles srv d)
             (grantRoles srv d))))))))))"

definition resourcePostgreSQLRoleUpdate ::
    "server \<Rightarrow> Client \<Rightarrow> role_attrs ResourceData \<Rightarrow> role_attrs outcome" where
  "resourcePostgreSQLRoleUpdate srv c d =
     (case Begin srv (databaseName c) of
        Inl err \<Rightarrow> (Some err, d, None)
      | Inr txn \<Rightarrow>
         (case setRoleName srv d txn of
            (Some err, d1, txn1) \<Rightarrow> (Some err, d1, Some (tx_Rollback txn1))
          | (None, d1, txn1) \<Rightarrow>
             (case roleUpdateSteps srv c d1 txn1 of
                (Some err, txn2) \<Rightarrow> (Some err, d1, Some (tx_Rollback txn2))
              | (None, txn2) \<Rightarrow>
                 (case tx_Commit srv txn2 of
                    (Some err, txn3) \<Rightarrow>
                      (Some (Wrapf ''could not commit transaction: {{err}}'' err), d1, Some (tx_Rollback txn3))
                  | (None, txn3) \<Rightarrow>
                     (let r = resourcePostgreSQLRoleReadImpl srv c d1
                      in (fst r, snd r, Some (tx_Rollback txn3)))))))"

section \<open>The extension resource\<close>

record ext_attrs =
  extNameAttr :: string
  extDatabaseAttr :: string
  extSchemaAttr :: string
  extVersionAttr :: string

definition generateExtID :: "ext_attrs ResourceData \<Rightarrow> string" where
  "generateExtID d = extDatabaseAttr (planned d) @ ''-'' @ extNameAttr (planned d)"

text \<open>The \<open>%v\<close> verb of \<open>fmt\<close> on a slice of strings.\<close>

definition sprint_v :: "string list \<Rightarrow> string" where
  "sprint_v xs = ''['' @ strings_Join xs '' '' @ '']''"

text \<open>
  \<open>getExtNames\<close>: the database and the extension name, from the attributes, or parsed
  from the identity when the name attribute is empty (on import).
\<close>

definition getExtNames :: "ext_attrs ResourceData \<Rightarrow> error + (string \<times> string)" where
  "getExtNames d =
     (let database = extDatabaseAttr (planned d);
          extName = extNameAttr (planned d)
      in if extName = [] then
           (let parsed = strings_Split (d_Id d) CHR ''-'' in
            if length parsed \<noteq> 2 then
              Inl (Errorf (''extension ID '' @ d_Id d @ '' has not the expected format ''
                     @ [squote] @ ''database-extension'' @ [squote] @ '': '' @ sprint_v parsed))
            else Inr (parsed ! 0, parsed ! 1))
         else Inr (database, extName))"

definition resourcePostgreSQLExtensionExists ::
    "server \<Rightarrow> Client \<Rightarrow> ext_attrs ResourceData \<Rightarrow> bool \<times> error option" where
  "resourcePostgreSQLExtensionExists srv c d =
     (case getExtNames d of
        Inl err \<Rightarrow> (False, Some err)
      | Inr (database, extName) \<Rightarrow>
          (let r = dbExists srv (databaseName c) database; exists = fst r; err = snd r in
           if err \<noteq> None \<or> \<not> exists then (False, err)
           else
             (case getDBConnection_err srv database of
                Some err1 \<Rightarrow> (False, Some err1)
              | None \<Rightarrow>
                 (let err2 = scan_err srv database
                               ''SELECT extname FROM pg_catalog.pg_extension WHERE extname = $1'' [extName] in
                  if err2 = Some ErrNoRows then (False, None)
                  else if err2 \<noteq> None then (False, err2)
                  else (True, None)))))"

definition resourcePostgreSQLExtensionReadImpl ::
    "server \<Rightarrow> Client \<Rightarrow> ext_attrs ResourceData \<Rightarrow> error option \<times> ext_attrs ResourceData" where
  "resourcePostgreSQLExtensionReadImpl srv c d =
     (case getExtNames d of
        Inl err \<Rightarrow> (Some err, d)
      | Inr (database, extName) \<Rightarrow>
          (case getDBConnection_err srv database of
             Some err \<Rightarrow> (Some err, d)
           | None \<Rightarrow>
              (case read_extension srv database extName of
                 Inl err \<Rightarrow>
                   (if err = ErrNoRows then (None, SetId [] d)
                    else (Some (Wrapf ''Error reading extension: {{err}}'' err), d))
               | Inr (extSchema, extVersion) \<Rightarrow>
                   (let d1 = d\<lparr>planned := \<lparr>extNameAttr = extName, extDatabaseAttr = database,
                                           extSchemaAttr = extSchema, extVersionAttr = extVersion\<rparr>\<rparr>
                    in (None, SetId (generateExtID d1) d1)))))"

definition setExtSchema :: "server \<Rightarrow> ext_attrs ResourceData \<Rightarrow> tx \<Rightarrow> error option \<times> tx" where
  "setExtSchema srv d txn =
     (if \<not> HasChange d extSchemaAttr then (None, txn)
      else
        (let extName = extNameAttr (planned d);
             schema = extSchemaAttr (planned d)
         in if schema = [] then (Some (Errorf ''schema name cannot be set to an empty string''), txn)
            else
              (let sql = ''ALTER EXTENSION '' @ QuoteIdentifier extName @ '' SET SCHEMA '' @ QuoteIdentifier schema in
               case tx_Exec srv txn sql of
                 (Some err, txn1) \<Rightarrow> (Some (Wrapf ''Error updating extension SCHEMA: {{err}}'' err), txn1)
               | (None, txn1) \<Rightarrow> (None, txn1))))"

definition setExtVersion :: "server \<Rightarrow> ext_attrs ResourceData \<Rightarrow> tx \<Rightarrow> error option \<times> tx" where
  "setExtVersion srv d txn =
     (if \<not> HasChange d extVersionAttr then (None, txn)
      else
        (let name = extNameAttr (planned d);
             version = extVersionAttr (planned d);
             b = ''ALTER EXTENSION '' @ QuoteIdentifier name @ '' UPDATE'';
             sql = (if version \<noteq> [] then b @ '' TO '' @ QuoteIdentifier version else b)
         in case tx_Exec srv txn sql of
              (Some err, txn1) \<Rightarrow> (Some (Wrapf ''Error updating extension version: {{err}}'' err), txn1)
            | (None, txn1) \<Rightarrow> (None, txn1)))"

text \<open>
  \<open>resourcePostgreSQLExtensionUpdate\<close>: the transaction is started, the two steps
  run, and the function returns through the read-back; the only call that finishes the
  transaction is the deferred \<open>Rollback\<close>.
\<close>

definition resourcePostgreSQLExtensionUpdate ::
    "server \<Rightarrow> Client \<Rightarrow> ext_attrs ResourceData \<Rightarrow> ext_attrs outcome" where
  "resourcePostgreSQLExtensionUpdate srv c d =
     (case startTransaction srv c (extDatabaseAttr (planned d)) of
        Inl err \<Rightarrow> (Some err, d, None)
      | Inr txn \<Rightarrow>
         (case setExtSchema srv d txn of
            (Some err, txn1) \<Rightarrow> (Some err, d, Some (tx_Rollback txn1))
          | (None, txn1) \<Rightarrow>
             (case setExtVersion srv d txn1 of
                (Some err, txn2) \<Rightarrow> (Some err, d, Some (tx_Rollback txn2))
              | (None, txn2) \<Rightarrow>
                 (let r = resourcePostgreSQLExtensionReadImpl srv c d
                  in (fst r, snd r, Some (tx_Rollback txn2))))))"

section \<open>Observations and sample environments\<close>

text \<open>
  What an operation leaves behind: the events it sent inside its transaction, the
  number of calls of \<open>Commit\<close>, and the final status of the transaction.
\<close>

definition sent :: "'a outcome \<Rightarrow> event list" where
  "sent r = (case snd (snd r) of None \<Rightarrow> [] | Some txn \<Rightarrow> events txn)"

definition commit_calls :: "'a outcome \<Rightarrow> nat" where
  "commit_calls r = (case snd (snd r) of None \<Rightarrow> 0 | Some txn \<Rightarrow> commits txn)"

definition final_status :: "'a outcome \<Rightarrow> tx_status option" where
  "final_status r = map_option status (snd (snd r))"

text \<open>
  \<open>schema.ImportStatePassthrough\<close>: on import the resource data holds the identity
  given by the user and no attribute.
\<close>

definition ImportStatePassthrough :: "string \<Rightarrow> ext_attrs ResourceData" where
  "ImportStatePassthrough i =
     (let empty = \<lparr>extNameAttr = [], extDatabaseAttr = [], extSchemaAttr = [], extVersionAttr = []\<rparr>
      in \<lparr>d_Id = i, prior = empty, planned = empty\<rparr>)"

text \<open>
  A server on which every call succeeds and the catalog lists the given granted roles,
  a server that refuses to begin a transaction, a client, and a role with the defaults
  of the resource schema.
\<close>

definition server_ok :: "string list \<Rightarrow> server" where
  "server_ok granted =
     \<lparr>begin_err = (\<lambda>db. None),
      exec_err = (\<lambda>tr sql. None),
      commit_err = (\<lambda>tr. None),
      query_rows = (\<lambda>tr sql args. Inr (map Inr granted)),
      scan_err = (\<lambda>db sql args. None),
      read_role = (\<lambda>roleID. Inr \<lparr>row_rolname = roleID, row_rolsuper = False, row_rolinherit = True,
                     row_rolcreaterole = False, row_rolcreatedb = False, row_rolcanlogin = False,
                     row_rolreplication = False, row_rolconnlimit = - 1, row_rolvaliduntil = ''infinity'',
                     row_role_names = granted\<rparr>),
      read_bypassrls = (\<lambda>roleID. Inr False),
      read_shadow = (\<lambda>roleID. Inr []),
      read_extension = (\<lambda>db ext. Inr (''public'', ''1.3'')),
      NewClient_err = (\<lambda>db. None),
      getDBConnection_err = (\<lambda>db. None)\<rparr>"

text \<open>A server whose existence probes all answer the given error (or a row, for none).\<close>

definition server_scan :: "error option \<Rightarrow> server" where
  "server_scan r = (server_ok [])\<lparr>scan_err := (\<lambda>db sql args. r)\<rparr>"

definition server_down :: server where
  "server_down = (server_ok [])\<lparr>begin_err := (\<lambda>db. Some (DriverError ''connection refused''))\<rparr>"

definition client0 :: Client where
  "client0 = \<lparr>databaseName = ''postgres'', config_Username = ''postgres'',
              version_String = ''9.6.0'', featureSupported = (\<lambda>f. True)\<rparr>"

definition role0 :: role_attrs where
  "role0 = \<lparr>v_name = ''r'', v_password = [], v_encrypted = [], v_roles = [],
            v_encrypted_password = True, v_valid_until = ''infinity'', v_connection_limit = - 1,
            v_superuser = False, v_create_database = False, v_create_role = False, v_inherit = True,
            v_login = False, v_replication = False, v_bypass_row_level_security = False,
            v_skip_drop_role = False, v_skip_reassign_owned = False\<rparr>"

definition roleData :: "role_attrs \<Rightarrow> role_attrs \<Rightarrow> role_attrs ResourceData" where
  "roleData old new = \<lparr>d_Id = v_name old, prior = old, planned = new\<rparr>"

text \<open>An installed extension, and resource data changing one set of attributes to another.\<close>

definition ext0 :: ext_attrs where
  "ext0 = \<lparr>extNameAttr = ''pg_trgm'', extDatabaseAttr = ''mydb'', extSchemaAttr = ''public'', extVersionAttr = ''1.3''\<rparr>"

definition extData :: "ext_attrs \<Rightarrow> ext_attrs \<Rightarrow> ext_attrs ResourceData" where
  "extData old new = \<lparr>d_Id = extDatabaseAttr old @ ''-'' @ extNameAttr old, prior = old, planned = new\<rparr>"

section \<open>Reading a literal back\<close>

text \<open>
  How a server that reads backslash escapes reads the body of a quoted literal: a
  doubled single quote stands for one single quote and a doubled backslash for one
  backslash. This is the inverse the round trip of \<open>pqQuoteLiteral\<close> is stated
  against; it is not a function of the program.
\<close>

fun unquoteLiteral :: "string \<Rightarrow> string" where
  "unquoteLiteral (c # c' # cs) =
     (if c = c' \<and> (c = squote \<or> c = backslash) then c # unquoteLiteral cs
      else c # unquoteLiteral (c' # cs))"
| "unquoteLiteral cs = cs"

section \<open>Statements of a role update\<close>

text \<open>
  The statements a role update sends, as the claims name them: the rename, the
  revocation of a granted role and the grant of a role.
\<close>

definition renameStmt :: "string \<Rightarrow> string \<Rightarrow> event" where
  "renameStmt oldName newName =
     Exec (''ALTER ROLE '' @ QuoteIdentifier oldName @ '' RENAME TO '' @ QuoteIdentifier newName)"

definition revokeStmt :: "string \<Rightarrow> string \<Rightarrow> event" where
  "revokeStmt role grantedRole = Exec (''REVOKE '' @ QuoteIdentifier grantedRole @ '' FROM '' @ QuoteIdentifier role)"

definition grantStmt :: "string \<Rightarrow> string \<Rightarrow> event" where
  "grantStmt role grantingRole = Exec (''GRANT '' @ QuoteIdentifier grantingRole @ '' TO '' @ QuoteIdentifier role)"

text \<open>
  An event targets a role name when it is an ALTER ROLE statement on that name, a
  REVOKE from it, a GRANT to it, or a query with the name as its only argument. It is a
  membership statement when it is a REVOKE or a GRANT. It alters a role when it is an
  ALTER ROLE statement on that name.
\<close>

fun targets :: "string \<Rightarrow> event \<Rightarrow> bool" where
  "targets role (Exec sql) =
     (prefix (''ALTER ROLE '' @ QuoteIdentifier role @ '' '') sql
      \<or> (prefix ''REVOKE '' sql \<and> suffix ('' FROM '' @ QuoteIdentifier role) sql)
      \<or> (prefix ''GRANT '' sql \<and> suffix ('' TO '' @ QuoteIdentifier role) sql))"
| "targets role (Query sql args) = (args = [role])"


definition alters :: "string \<Rightarrow> event \<Rightarrow> bool" where
  "alters role e = (\<exists>rest. e = Exec (''ALTER ROLE '' @ QuoteIdentifier role @ '' '' @ rest))"





text \<open>
  The ALTER ROLE statements that follow the name in \<open>resourcePostgreSQLRoleUpdate\<close>, in
  the order of its calls: \<open>setRoleBypassRLS\<close>, \<open>setRoleConnLimit\<close>, \<open>setRoleCreateDB\<close>,
  \<open>setRoleCreateRole\<close>, \<open>setRoleInherit\<close>, \<open>setRoleLogin\<close>, \<open>setRoleReplication\<close>,
  \<open>setRoleSuperuser\<close>, \<open>setRoleValidUntil\<close>. Each sends its statement when its attribute
  has changed; \<open>setRoleValidUntil\<close> also requires a non-empty value.
\<close>

definition expectedAlters :: "role_attrs ResourceData \<Rightarrow> event list" where
  "expectedAlters d =
     (if HasChange d v_bypass_row_level_security
      then [Exec (''ALTER ROLE '' @ QuoteIdentifier (v_name (planned d)) @ '' WITH '' @ (if v_bypass_row_level_security (planned d) then ''BYPASSRLS'' else ''NOBYPASSRLS''))]
      else [])
   @ (if HasChange d v_connection_limit
      then [Exec (''ALTER ROLE '' @ QuoteIdentifier (v_name (planned d)) @ '' CONNECTION LIMIT '' @ sprint_d (v_connection_limit (planned d)))]
      else [])
   @ (if HasChange d v_create_database
      then [Exec (''ALTER ROLE '' @ QuoteIdentifier (v_name (planned d)) @ '' WITH '' @ (if v_create_database (planned d) then ''CREATEDB'' else ''NOCREATEDB''))]
      else [])
   @ (if HasChange d v_create_role
      then [Exec (''ALTER ROLE '' @ QuoteIdentifier (v_name (planned d)) @ '' WITH '' @ (if v_create_role (planned d) then ''CREATEROLE'' else ''NOCREATEROLE''))]
      else [])
   @ (if HasChange d v_inherit
      then [Exec (''ALTER ROLE '' @ QuoteIdentifier (v_name (planned d)) @ '' WITH '' @ (if v_inherit (planned d) then ''INHERIT'' else ''NOINHERIT''))]
      else [])
   @ (if HasChange d v_login
      then [Exec (''ALTER ROLE '' @ QuoteIdentifier (v_name (planned d)) @ '' WITH '' @ (if v_login (planned d) then ''LOGIN'' else ''NOLOGIN''))]
      else [])
   @ (if HasChange d v_replication
      then [Exec (''ALTER ROLE '' @ QuoteIdentifier (v_name (planned d)) @ '' WITH '' @ (if v_replication (planned d) then ''REPLICATION'' else ''NOREPLICATION''))]
      else [])
   @ (if HasChange d v_superuser
      then [Exec (''ALTER ROLE '' @ QuoteIdentifier (v_name (planned d)) @ '' WITH '' @ (if v_superuser (planned d) then ''SUPERUSER'' else ''NOSUPERUSER''))]
      else [])
   @ (if HasChange d v_valid_until \<and> v_valid_until (planned d) \<noteq> []
      then [Exec (''ALTER ROLE '' @ QuoteIdentifier (v_name (planned d)) @ '' VALID UNTIL '' @ [squote] @ pqQuoteLiteral (if strings_ToLower (v_valid_until (planned d)) = ''infinity'' then ''infinity'' else v_valid_until (planned d)) @ [squote])]
      else [])"

text \<open>
  Properties of a step of the update, for the proofs. \<open>extends_with\<close>: whatever the step
  returns, it only appends events that satisfy a predicate. \<open>succeeds_with\<close>: the step
  returns nil and appends exactly a given list. \<open>tail_after\<close>: the step appends a given
  list and goes on as another step. \<open>sends_prefix\<close>: the step appends a prefix of a
  given list, the whole list when it returns nil. \<open>leads_to\<close>: the step appends events
  that satisfy a predicate and then either has failed or goes on as another step.
\<close>

definition extends_with :: "(event \<Rightarrow> bool) \<Rightarrow> (tx \<Rightarrow> error option \<times> tx) \<Rightarrow> bool" where
  "extends_with P f = (\<forall>t. \<exists>ex. snd (f t) = t\<lparr>events := events t @ ex\<rparr> \<and> list_all P ex)"

definition succeeds_with :: "event list \<Rightarrow> (tx \<Rightarrow> error option \<times> tx) \<Rightarrow> bool" where
  "succeeds_with ex f = (\<forall>t. f t = (None, t\<lparr>events := events t @ ex\<rparr>))"

definition tail_after :: "event list \<Rightarrow> (tx \<Rightarrow> error option \<times> tx) \<Rightarrow> (tx \<Rightarrow> error option \<times> tx) \<Rightarrow> bool" where
  "tail_after ex g f = (\<forall>t. f t = g (t\<lparr>events := events t @ ex\<rparr>))"





section \<open>Privilege validation\<close>

lemma sliceContainsStr_set: "sliceContainsStr haystack needle = (needle \<in> set haystack)"
  by (induction haystack) auto

lemma validatePrivileges_loop_None:
  "(validatePrivileges_loop allowed t ps = None) = (set ps \<subseteq> set allowed)"
  by (induction ps) (auto simp: sliceContainsStr_set)

lemma validatePrivileges_loop_Some:
  "validatePrivileges_loop allowed t ps = Some e \<Longrightarrow>
   \<exists>p. p \<in> set ps \<and> p \<notin> set allowed \<and> e = Errorf (p @ '' is not an allowed privilege for object type '' @ t)"
  by (induction ps) (auto simp: sliceContainsStr_set split: if_splits)

text \<open>
  Claim C6. \<open>validatePrivileges\<close> returns nil exactly when the object type is
  \<open>table\<close> or \<open>sequence\<close> and every privilege is in the list of that type; any other
  object type gives the error "unknown object type", and a privilege outside the list
  gives the error naming that privilege. The function is pure: it receives no
  transaction and builds no statement.
\<close>

theorem validatePrivileges_spec:
  "((validatePrivileges t ps = None) =
      ((t = ''table'' \<and> set ps \<subseteq> {''ALL'', ''SELECT'', ''INSERT'', ''UPDATE'', ''DELETE'', ''TRUNCATE'', ''REFERENCES'', ''TRIGGER''})
       \<or> (t = ''sequence'' \<and> set ps \<subseteq> {''ALL'', ''USAGE'', ''SELECT'', ''UPDATE''})))
   \<and> (t \<noteq> ''table'' \<and> t \<noteq> ''sequence'' \<longrightarrow>
        validatePrivileges t ps = Some (Errorf (''unknown object type '' @ t)))
   \<and> ((t = ''table'' \<or> t = ''sequence'') \<and> validatePrivileges t ps \<noteq> None \<longrightarrow>
        (\<exists>p allowed. allowedPrivileges t = Some allowed \<and> p \<in> set ps \<and> p \<notin> set allowed \<and>
           validatePrivileges t ps = Some (Errorf (p @ '' is not an allowed privilege for object type '' @ t))))"
proof (intro conjI impI)
  show "(validatePrivileges t ps = None) =
      ((t = ''table'' \<and> set ps \<subseteq> {''ALL'', ''SELECT'', ''INSERT'', ''UPDATE'', ''DELETE'', ''TRUNCATE'', ''REFERENCES'', ''TRIGGER''})
       \<or> (t = ''sequence'' \<and> set ps \<subseteq> {''ALL'', ''USAGE'', ''SELECT'', ''UPDATE''}))"
    by (simp add: validatePrivileges_def allowedPrivileges_def validatePrivileges_loop_None)
next
  assume "t \<noteq> ''table'' \<and> t \<noteq> ''sequence''"
  then show "validatePrivileges t ps = Some (Errorf (''unknown object type '' @ t))"
    by (simp add: validatePrivileges_def allowedPrivileges_def)
next
  assume a: "(t = ''table'' \<or> t = ''sequence'') \<and> validatePrivileges t ps \<noteq> None"
  then obtain allowed where al: "allowedPrivileges t = Some allowed"
    by (auto simp: allowedPrivileges_def)
  with a obtain e where e: "validatePrivileges_loop allowed t ps = Some e"
    by (auto simp: validatePrivileges_def)
  from validatePrivileges_loop_Some [OF e] al e
  show "\<exists>p allowed. allowedPrivileges t = Some allowed \<and> p \<in> set ps \<and> p \<notin> set allowed \<and>
           validatePrivileges t ps = Some (Errorf (p @ '' is not an allowed privilege for object type '' @ t))"
    by (auto simp: validatePrivileges_def)
qed

theorem validatePrivileges_spec_witness:
  "validatePrivileges ''table'' [''SELECT'', ''TRUNCATE''] = None
   \<and> validatePrivileges ''view'' [''SELECT''] = Some (Errorf ''unknown object type view'')
   \<and> validatePrivileges ''sequence'' [''TRUNCATE''] =
       Some (Errorf ''TRUNCATE is not an allowed privilege for object type sequence'')"
proof -
  have 1: "validatePrivileges ''table'' [''SELECT'', ''TRUNCATE''] = None"
    using validatePrivileges_spec [of "''table''" "[''SELECT'', ''TRUNCATE'']"] by simp
  have 2: "validatePrivileges ''view'' [''SELECT''] = Some (Errorf ''unknown object type view'')"
    using validatePrivileges_spec [of "''view''" "[''SELECT'']"] by simp
  have 3: "validatePrivileges ''sequence'' [''TRUNCATE''] =
       Some (Errorf ''TRUNCATE is not an allowed privilege for object type sequence'')"
    using validatePrivileges_spec [of "''sequence''" "[''TRUNCATE'']"]
    by (auto simp: allowedPrivileges_def)
  from 1 2 3 show ?thesis by simp
qed

section \<open>The identity of an extension\<close>

lemma strings_Split_no_sep: "sep \<notin> set s \<Longrightarrow> strings_Split s sep = [s]"
  by (induction s) auto

lemma strings_Split_append:
  "sep \<notin> set a \<Longrightarrow> strings_Split (a @ sep # b) sep = a # strings_Split b sep"
  by (induction a) auto

text \<open>
  Claim C10. For a database name and an extension name without a hyphen, parsing the
  generated identity on import gives both names back; with a hyphen in a name (the
  extension \<open>uuid-ossp\<close> in the database \<open>app\<close>), the generated identity is refused
  on import with the format error, its segments being three.
\<close>

theorem extension_id_roundtrip:
  "(\<forall>db n. CHR ''-'' \<notin> set db \<and> CHR ''-'' \<notin> set n \<longrightarrow>
      getExtNames (ImportStatePassthrough (generateExtID
        \<lparr>d_Id = i, prior = p,
         planned = \<lparr>extNameAttr = n, extDatabaseAttr = db, extSchemaAttr = s, extVersionAttr = v\<rparr>\<rparr>))
      = Inr (db, n))
   \<and> (\<exists>db n. getExtNames (ImportStatePassthrough (generateExtID
        \<lparr>d_Id = i, prior = p,
         planned = \<lparr>extNameAttr = n, extDatabaseAttr = db, extSchemaAttr = s, extVersionAttr = v\<rparr>\<rparr>))
      = Inl (Errorf (''extension ID app-uuid-ossp has not the expected format ''
                     @ [squote] @ ''database-extension'' @ [squote] @ '': [app uuid ossp]'')))"
proof (intro conjI allI impI)
  fix db n :: string
  assume h: "CHR ''-'' \<notin> set db \<and> CHR ''-'' \<notin> set n"
  then have "strings_Split (db @ ''-'' @ n) CHR ''-'' = [db, n]"
    by (simp add: strings_Split_append strings_Split_no_sep)
  then show "getExtNames (ImportStatePassthrough (generateExtID
        \<lparr>d_Id = i, prior = p,
         planned = \<lparr>extNameAttr = n, extDatabaseAttr = db, extSchemaAttr = s, extVersionAttr = v\<rparr>\<rparr>))
      = Inr (db, n)"
    by (simp add: getExtNames_def ImportStatePassthrough_def generateExtID_def Let_def)
next
  have "getExtNames (ImportStatePassthrough (generateExtID
        \<lparr>d_Id = i, prior = p,
         planned = \<lparr>extNameAttr = ''uuid-ossp'', extDatabaseAttr = ''app'', extSchemaAttr = s, extVersionAttr = v\<rparr>\<rparr>))
      = Inl (Errorf (''extension ID app-uuid-ossp has not the expected format ''
                     @ [squote] @ ''database-extension'' @ [squote] @ '': [app uuid ossp]''))"
    by (simp add: getExtNames_def ImportStatePassthrough_def generateExtID_def sprint_v_def Let_def)
  then show "\<exists>db n. getExtNames (ImportStatePassthrough (generateExtID
        \<lparr>d_Id = i, prior = p,
         planned = \<lparr>extNameAttr = n, extDatabaseAttr = db, extSchemaAttr = s, extVersionAttr = v\<rparr>\<rparr>))
      = Inl (Errorf (''extension ID app-uuid-ossp has not the expected format ''
                     @ [squote] @ ''database-extension'' @ [squote] @ '': [app uuid ossp]''))"
    by blast
qed

theorem extension_id_roundtrip_witness:
  "getExtNames (ImportStatePassthrough (generateExtID
        \<lparr>d_Id = [], prior = \<lparr>extNameAttr = [], extDatabaseAttr = [], extSchemaAttr = [], extVersionAttr = []\<rparr>,
         planned = \<lparr>extNameAttr = ''pg_trgm'', extDatabaseAttr = ''mydb'', extSchemaAttr = ''public'', extVersionAttr = []\<rparr>\<rparr>))
      = Inr (''mydb'', ''pg_trgm'')"
  using extension_id_roundtrip [of "[]" "\<lparr>extNameAttr = [], extDatabaseAttr = [], extSchemaAttr = [], extVersionAttr = []\<rparr>" "''public''" "[]"]
  by simp

section \<open>Deleting a role\<close>

lemma events_tx_Rollback [simp]: "events (tx_Rollback t) = events t"
  by (simp add: tx_Rollback_def)

lemma commits_tx_Rollback [simp]: "commits (tx_Rollback t) = commits t"
  by (simp add: tx_Rollback_def)

lemma events_tx_Commit [simp]: "events (snd (tx_Commit srv t)) = events t"
  by (simp add: tx_Commit_def split: option.splits)

lemma deleteRole_loop_prefix:
  "\<exists>k. events (snd (deleteRole_loop srv qs t)) = events t @ map Exec (take k qs)"
proof (induction qs arbitrary: t)
  case Nil
  then show ?case by simp
next
  case (Cons q qs)
  show ?case
  proof (cases "exec_err srv (events t) q")
    case None
    from Cons.IH [of "t\<lparr>events := events t @ [Exec q]\<rparr>"]
    obtain k where "events (snd (deleteRole_loop srv qs (t\<lparr>events := events t @ [Exec q]\<rparr>)))
         = (events t @ [Exec q]) @ map Exec (take k qs)" by auto
    then have "events (snd (deleteRole_loop srv (q # qs) t)) = events t @ map Exec (take (Suc k) (q # qs))"
      using None by (simp add: tx_Exec_def)
    then show ?thesis by blast
  next
    case (Some e)
    then have "events (snd (deleteRole_loop srv (q # qs) t)) = events t @ map Exec (take (Suc 0) (q # qs))"
      by (simp add: tx_Exec_def)
    then show ?thesis by blast
  qed
qed

lemma deleteRole_loop_all:
  "\<forall>tr q. exec_err srv tr q = None \<Longrightarrow>
   fst (deleteRole_loop srv qs t) = None \<and> events (snd (deleteRole_loop srv qs t)) = events t @ map Exec qs"
  by (induction qs arbitrary: t) (auto simp: tx_Exec_def)

lemma sent_delete_prefix:
  "\<exists>k. sent (resourcePostgreSQLRoleDelete srv c d) = map Exec (take k (deleteQueries c (planned d)))"
proof (cases "begin_err srv (databaseName c)")
  case (Some e)
  then have "sent (resourcePostgreSQLRoleDelete srv c d) = map Exec (take 0 (deleteQueries c (planned d)))"
    by (simp add: resourcePostgreSQLRoleDelete_def Begin_def sent_def)
  then show ?thesis by blast
next
  case None
  let ?t0 = "\<lparr>events = [], status = Open, commits = 0\<rparr>"
  let ?qs = "deleteQueries c (planned d)"
  obtain k where k: "events (snd (deleteRole_loop srv ?qs ?t0)) = events ?t0 @ map Exec (take k ?qs)"
    using deleteRole_loop_prefix by blast
  have "sent (resourcePostgreSQLRoleDelete srv c d) = events (snd (deleteRole_loop srv ?qs ?t0))"
    using None
    by (cases "deleteRole_loop srv ?qs ?t0"; cases "tx_Commit srv (snd (deleteRole_loop srv ?qs ?t0))")
       (auto simp: resourcePostgreSQLRoleDelete_def Begin_def sent_def Let_def
             split: option.splits prod.splits dest: arg_cong [where f = "\<lambda>r. events (snd r)"])
  with k show ?thesis by auto
qed

lemma sent_delete_all:
  assumes "begin_err srv (databaseName c) = None" and "\<forall>tr q. exec_err srv tr q = None"
  shows "sent (resourcePostgreSQLRoleDelete srv c d) = map Exec (deleteQueries c (planned d))"
proof -
  let ?t0 = "\<lparr>events = [], status = Open, commits = 0\<rparr>"
  let ?qs = "deleteQueries c (planned d)"
  from deleteRole_loop_all [OF assms(2), of ?qs ?t0]
  have l: "fst (deleteRole_loop srv ?qs ?t0) = None"
    and e: "events (snd (deleteRole_loop srv ?qs ?t0)) = map Exec ?qs" by auto
  show ?thesis
  proof (cases "?qs = []")
    case True
    then show ?thesis using assms(1)
      by (simp add: resourcePostgreSQLRoleDelete_def Begin_def sent_def)
  next
    case False
    obtain t1 where t1: "deleteRole_loop srv ?qs ?t0 = (None, t1)"
      using l by (cases "deleteRole_loop srv ?qs ?t0") auto
    with e have e1: "events t1 = map Exec ?qs" by simp
    have "events (snd (tx_Commit srv t1)) = events t1" by simp
    then show ?thesis using assms(1) False t1 e1
      by (cases "tx_Commit srv t1")
         (auto simp: resourcePostgreSQLRoleDelete_def Begin_def sent_def Let_def split: option.splits)
  qed
qed

text \<open>
  Claim C7. The statements a role delete sends are, in this order, the reassignment of
  ownership, the drop of owned objects and the drop of the role, the first two left
  out when \<open>skip_reassign_owned\<close> is true and the last when \<open>skip_drop_role\<close> is
  true: what is sent is always a prefix of that list (a failing statement ends the
  run), and the whole list when the transaction begins and every statement succeeds.
\<close>

theorem role_delete_statement_order:
  "(let roleName = v_name (planned d);
        reassign = (if featureSupported c featureReassignOwnedCurrentUser
                    then ''REASSIGN OWNED BY '' @ QuoteIdentifier roleName @ '' TO CURRENT_USER''
                    else ''REASSIGN OWNED BY '' @ QuoteIdentifier roleName @ '' TO '' @ QuoteIdentifier (config_Username c));
        dropOwned = ''DROP OWNED BY '' @ QuoteIdentifier roleName;
        dropRole = ''DROP ROLE '' @ QuoteIdentifier roleName;
        expected = (if v_skip_reassign_owned (planned d) then [] else [Exec reassign, Exec dropOwned])
                   @ (if v_skip_drop_role (planned d) then [] else [Exec dropRole])
    in prefix (sent (resourcePostgreSQLRoleDelete srv c d)) expected
       \<and> (begin_err srv (databaseName c) = None \<and> (\<forall>tr q. exec_err srv tr q = None)
            \<longrightarrow> sent (resourcePostgreSQLRoleDelete srv c d) = expected))"
proof -
  have q: "map Exec (deleteQueries c (planned d)) =
      (if v_skip_reassign_owned (planned d) then []
       else [Exec (if featureSupported c featureReassignOwnedCurrentUser
                    then ''REASSIGN OWNED BY '' @ QuoteIdentifier (v_name (planned d)) @ '' TO CURRENT_USER''
                    else ''REASSIGN OWNED BY '' @ QuoteIdentifier (v_name (planned d)) @ '' TO '' @ QuoteIdentifier (config_Username c)),
             Exec (''DROP OWNED BY '' @ QuoteIdentifier (v_name (planned d)))])
      @ (if v_skip_drop_role (planned d) then [] else [Exec (''DROP ROLE '' @ QuoteIdentifier (v_name (planned d)))])"
    by (simp add: deleteQueries_def Let_def)
  obtain k where k: "sent (resourcePostgreSQLRoleDelete srv c d) = map Exec (take k (deleteQueries c (planned d)))"
    using sent_delete_prefix by blast
  have p: "prefix (sent (resourcePostgreSQLRoleDelete srv c d)) (map Exec (deleteQueries c (planned d)))"
    unfolding k by (simp add: take_is_prefix take_map [symmetric])
  show ?thesis
    unfolding Let_def using p sent_delete_all [of srv c d] unfolding q by blast
qed

theorem role_delete_statement_order_witness:
  "sent (resourcePostgreSQLRoleDelete (server_ok []) client0 (roleData role0 role0))
     = [Exec (''REASSIGN OWNED BY '' @ QuoteIdentifier ''r'' @ '' TO CURRENT_USER''),
        Exec (''DROP OWNED BY '' @ QuoteIdentifier ''r''),
        Exec (''DROP ROLE '' @ QuoteIdentifier ''r'')]"
  using role_delete_statement_order [of "roleData role0 role0" client0 "server_ok []"]
  by (simp add: server_ok_def client0_def role0_def roleData_def Let_def)

text \<open>
  Claim C8, amended. With \<open>skip_drop_role\<close> and \<open>skip_reassign_owned\<close> both true, a
  role delete sends no statement and never calls \<open>Commit\<close>; when the transaction
  could begin it clears the identity and returns nil, and when it could not, the error
  of \<open>Begin\<close> is returned and the resource data is left as it was.
\<close>

theorem role_delete_skip_both:
  assumes "v_skip_drop_role (planned d)" and "v_skip_reassign_owned (planned d)"
  shows "sent (resourcePostgreSQLRoleDelete srv c d) = []
       \<and> commit_calls (resourcePostgreSQLRoleDelete srv c d) = 0
       \<and> final_status (resourcePostgreSQLRoleDelete srv c d) \<noteq> Some Committed
       \<and> (case begin_err srv (databaseName c) of
            None \<Rightarrow> fst (resourcePostgreSQLRoleDelete srv c d) = None
                   \<and> d_Id (fst (snd (resourcePostgreSQLRoleDelete srv c d))) = []
          | Some err \<Rightarrow> fst (resourcePostgreSQLRoleDelete srv c d) = Some err
                   \<and> fst (snd (resourcePostgreSQLRoleDelete srv c d)) = d)"
proof -
  have "deleteQueries c (planned d) = []"
    using assms by (simp add: deleteQueries_def)
  then show ?thesis
    by (simp add: resourcePostgreSQLRoleDelete_def Begin_def sent_def commit_calls_def final_status_def
          SetId_def tx_Rollback_def split: option.splits)
qed

theorem role_delete_skip_both_witness:
  "sent (resourcePostgreSQLRoleDelete (server_ok []) client0
           (roleData role0 (role0\<lparr>v_skip_drop_role := True, v_skip_reassign_owned := True\<rparr>))) = []
   \<and> commit_calls (resourcePostgreSQLRoleDelete (server_ok []) client0
           (roleData role0 (role0\<lparr>v_skip_drop_role := True, v_skip_reassign_owned := True\<rparr>))) = 0
   \<and> fst (resourcePostgreSQLRoleDelete (server_ok []) client0
           (roleData role0 (role0\<lparr>v_skip_drop_role := True, v_skip_reassign_owned := True\<rparr>))) = None
   \<and> d_Id (fst (snd (resourcePostgreSQLRoleDelete (server_ok []) client0
           (roleData role0 (role0\<lparr>v_skip_drop_role := True, v_skip_reassign_owned := True\<rparr>))))) = []"
  using role_delete_skip_both [of "roleData role0 (role0\<lparr>v_skip_drop_role := True, v_skip_reassign_owned := True\<rparr>)"
          "server_ok []" client0]
  by (simp add: server_ok_def client0_def role0_def roleData_def)

text \<open>
  The claim as stated fails when the transaction cannot begin: the delete returns the
  error and the identity stays.
\<close>

theorem role_delete_skip_both_counterexample:
  "v_skip_drop_role (planned (roleData role0 (role0\<lparr>v_skip_drop_role := True, v_skip_reassign_owned := True\<rparr>)))
   \<and> v_skip_reassign_owned (planned (roleData role0 (role0\<lparr>v_skip_drop_role := True, v_skip_reassign_owned := True\<rparr>)))
   \<and> fst (resourcePostgreSQLRoleDelete server_down client0
           (roleData role0 (role0\<lparr>v_skip_drop_role := True, v_skip_reassign_owned := True\<rparr>)))
       = Some (DriverError ''connection refused'')
   \<and> d_Id (fst (snd (resourcePostgreSQLRoleDelete server_down client0
           (roleData role0 (role0\<lparr>v_skip_drop_role := True, v_skip_reassign_owned := True\<rparr>))))) = ''r''"
  by (simp add: resourcePostgreSQLRoleDelete_def Begin_def server_down_def server_ok_def client0_def
        role0_def roleData_def)

section \<open>Existence probes\<close>

lemma probe_switch:
  "(((if r = Some ErrNoRows then (False, None) else if r \<noteq> None then (False, Some (f (the r))) else (True, None)) = (False, None)) = (r = Some ErrNoRows)
   \<and> (snd ((if r = Some ErrNoRows then (False, None) else if r \<noteq> None then (False, Some (f (the r))) else (True, None))) \<noteq> None) = (\<exists>e. r = Some e \<and> e \<noteq> ErrNoRows)
   \<and> (snd ((if r = Some ErrNoRows then (False, None) else if r \<noteq> None then (False, Some (f (the r))) else (True, None))) \<noteq> None) = (\<exists>e. r = Some e \<and> (if r = Some ErrNoRows then (False, None) else if r \<noteq> None then (False, Some (f (the r))) else (True, None)) = (False, Some (f e)))
   \<and> ((if r = Some ErrNoRows then (False, None) else if r \<noteq> None then (False, Some (f (the r))) else (True, None)) = (True, None)) = (r = None))"
  by (cases r) auto

lemma dbExists_probe:
  "((dbExists srv conn x = (False, None)) = (scan_err srv conn ''SELECT datname FROM pg_database WHERE datname=$1'' [x] = Some ErrNoRows)
   \<and> (snd (dbExists srv conn x) \<noteq> None) = (\<exists>e. scan_err srv conn ''SELECT datname FROM pg_database WHERE datname=$1'' [x] = Some e \<and> e \<noteq> ErrNoRows)
   \<and> (snd (dbExists srv conn x) \<noteq> None) = (\<exists>e. scan_err srv conn ''SELECT datname FROM pg_database WHERE datname=$1'' [x] = Some e \<and> dbExists srv conn x = (False, Some (Wrapf ''could not check if database exists: {{err}}'' e)))
   \<and> (dbExists srv conn x = (True, None)) = (scan_err srv conn ''SELECT datname FROM pg_database WHERE datname=$1'' [x] = None))"
  unfolding dbExists_def Let_def by (rule probe_switch)

lemma roleExists_probe:
  "((roleExists srv conn x = (False, None)) = (scan_err srv conn ''SELECT 1 FROM pg_roles WHERE rolname=$1'' [x] = Some ErrNoRows)
   \<and> (snd (roleExists srv conn x) \<noteq> None) = (\<exists>e. scan_err srv conn ''SELECT 1 FROM pg_roles WHERE rolname=$1'' [x] = Some e \<and> e \<noteq> ErrNoRows)
   \<and> (snd (roleExists srv conn x) \<noteq> None) = (\<exists>e. scan_err srv conn ''SELECT 1 FROM pg_roles WHERE rolname=$1'' [x] = Some e \<and> roleExists srv conn x = (False, Some (Wrapf ''could not check if role exists: {{err}}'' e)))
   \<and> (roleExists srv conn x = (True, None)) = (scan_err srv conn ''SELECT 1 FROM pg_roles WHERE rolname=$1'' [x] = None))"
  unfolding roleExists_def Let_def by (rule probe_switch)

lemma schemaExists_probe:
  "((schemaExists srv conn x = (False, None)) = (scan_err srv conn ''SELECT 1 FROM pg_namespace WHERE nspname=$1'' [x] = Some ErrNoRows)
   \<and> (snd (schemaExists srv conn x) \<noteq> None) = (\<exists>e. scan_err srv conn ''SELECT 1 FROM pg_namespace WHERE nspname=$1'' [x] = Some e \<and> e \<noteq> ErrNoRows)
   \<and> (snd (schemaExists srv conn x) \<noteq> None) = (\<exists>e. scan_err srv conn ''SELECT 1 FROM pg_namespace WHERE nspname=$1'' [x] = Some e \<and> schemaExists srv conn x = (False, Some (Wrapf ''could not check if schema exists: {{err}}'' e)))
   \<and> (schemaExists srv conn x = (True, None)) = (scan_err srv conn ''SELECT 1 FROM pg_namespace WHERE nspname=$1'' [x] = None))"
  unfolding schemaExists_def Let_def by (rule probe_switch)

lemma resourcePostgreSQLRoleExists_probe:
  "((resourcePostgreSQLRoleExists srv c rd = (False, None)) = (scan_err srv (databaseName c) ''SELECT rolname FROM pg_catalog.pg_roles WHERE rolname=$1'' [d_Id rd] = Some ErrNoRows)
   \<and> (snd (resourcePostgreSQLRoleExists srv c rd) \<noteq> None) = (\<exists>e. scan_err srv (databaseName c) ''SELECT rolname FROM pg_catalog.pg_roles WHERE rolname=$1'' [d_Id rd] = Some e \<and> e \<noteq> ErrNoRows)
   \<and> (snd (resourcePostgreSQLRoleExists srv c rd) \<noteq> None) = (\<exists>e. scan_err srv (databaseName c) ''SELECT rolname FROM pg_catalog.pg_roles WHERE rolname=$1'' [d_Id rd] = Some e \<and> resourcePostgreSQLRoleExists srv c rd = (False, Some (e)))
   \<and> (resourcePostgreSQLRoleExists srv c rd = (True, None)) = (scan_err srv (databaseName c) ''SELECT rolname FROM pg_catalog.pg_roles WHERE rolname=$1'' [d_Id rd] = None))"
  unfolding resourcePostgreSQLRoleExists_def Let_def
  by (cases "scan_err srv (databaseName c) ''SELECT rolname FROM pg_catalog.pg_roles WHERE rolname=$1'' [d_Id rd]") auto

lemma extension_probe_switch:
  "res = (let r = (if r1 = Some ErrNoRows then (False, None)
             else if r1 \<noteq> None then (False, Some (f (the r1))) else (True, None));
        exists = fst r; err = snd r in
    if err \<noteq> None \<or> \<not> exists then (False, err)
    else (case cerr of
            Some err1 \<Rightarrow> (False, Some err1)
          | None \<Rightarrow>
             (let err2 = r2 in
              if err2 = Some ErrNoRows then (False, None)
              else if err2 \<noteq> None then (False, err2)
              else (True, None)))) \<Longrightarrow>
   (res = (False, None)) = (r1 = Some ErrNoRows \<or> (r1 = None \<and> cerr = None \<and> r2 = Some ErrNoRows))
   \<and> (snd res \<noteq> None) =
        ((\<exists>e. r1 = Some e \<and> e \<noteq> ErrNoRows)
         \<or> (r1 = None \<and> ((\<exists>e. cerr = Some e) \<or> (\<exists>e. r2 = Some e \<and> e \<noteq> ErrNoRows))))
   \<and> (snd res \<noteq> None) =
        ((\<exists>e. r1 = Some e \<and> res = (False, Some (f e)))
         \<or> (r1 = None \<and> ((\<exists>e. cerr = Some e \<and> res = (False, Some e))
                          \<or> (cerr = None \<and> (\<exists>e. r2 = Some e \<and> res = (False, Some e))))))
   \<and> (res = (True, None)) = (r1 = None \<and> cerr = None \<and> r2 = None)"
  by (cases r1; cases cerr; cases r2) (simp_all add: Let_def)

lemma resourcePostgreSQLExtensionExists_probe:
  "(case getExtNames d of
      Inl err \<Rightarrow> resourcePostgreSQLExtensionExists srv c d = (False, Some err)
    | Inr (database, extName) \<Rightarrow>
        (let r1 = scan_err srv (databaseName c) ''SELECT datname FROM pg_database WHERE datname=$1'' [database];
             cerr = getDBConnection_err srv database;
             r2 = scan_err srv database ''SELECT extname FROM pg_catalog.pg_extension WHERE extname = $1'' [extName];
             res = resourcePostgreSQLExtensionExists srv c d
         in (res = (False, None)) = (r1 = Some ErrNoRows \<or> (r1 = None \<and> cerr = None \<and> r2 = Some ErrNoRows))
            \<and> (snd res \<noteq> None) =
                 ((\<exists>e. r1 = Some e \<and> e \<noteq> ErrNoRows)
                  \<or> (r1 = None \<and> ((\<exists>e. cerr = Some e) \<or> (\<exists>e. r2 = Some e \<and> e \<noteq> ErrNoRows))))
            \<and> (snd res \<noteq> None) =
                 ((\<exists>e. r1 = Some e \<and> res = (False, Some (Wrapf ''could not check if database exists: {{err}}'' e)))
                  \<or> (r1 = None \<and> ((\<exists>e. cerr = Some e \<and> res = (False, Some e))
                                   \<or> (cerr = None \<and> (\<exists>e. r2 = Some e \<and> res = (False, Some e))))))
            \<and> (res = (True, None)) = (r1 = None \<and> cerr = None \<and> r2 = None)))"
proof (cases "getExtNames d")
  case (Inl err)
  then show ?thesis by (simp add: resourcePostgreSQLExtensionExists_def)
next
  case (Inr p)
  obtain database extName where p: "p = (database, extName)" by (cases p)
  let ?r1 = "scan_err srv (databaseName c) ''SELECT datname FROM pg_database WHERE datname=$1'' [database]"
  let ?r2 = "scan_err srv database ''SELECT extname FROM pg_catalog.pg_extension WHERE extname = $1'' [extName]"
  let ?cerr = "getDBConnection_err srv database"
  let ?f = "Wrapf ''could not check if database exists: {{err}}''"
  have "resourcePostgreSQLExtensionExists srv c d =
     (let r = (if ?r1 = Some ErrNoRows then (False, None)
             else if ?r1 \<noteq> None then (False, Some (?f (the ?r1))) else (True, None));
        exists = fst r; err = snd r in
    if err \<noteq> None \<or> \<not> exists then (False, err)
    else (case ?cerr of
            Some err1 \<Rightarrow> (False, Some err1)
          | None \<Rightarrow>
             (let err2 = ?r2 in
              if err2 = Some ErrNoRows then (False, None)
              else if err2 \<noteq> None then (False, err2)
              else (True, None))))"
    using Inr p unfolding resourcePostgreSQLExtensionExists_def dbExists_def by (simp add: Let_def)
  note F = extension_probe_switch [where f = ?f and ?r1.0 = ?r1 and cerr = ?cerr and ?r2.0 = ?r2, OF this]
  show ?thesis
    unfolding Inr p sum.case prod.case Let_def by (rule F)
qed

text \<open>
  Claim C9. Each existence probe (database, role, schema, the role resource, the
  extension resource) answers \<open>(false, nil)\<close> exactly when a catalog query of it had
  no row, answers with an error exactly when a call of it failed otherwise, the answer
  then being \<open>false\<close> with that error (wrapped by the helpers), and answers
  \<open>(true, nil)\<close> exactly when every query found its row: absence is never an error and
  an error is never absence. The extension probe first finds its names (a malformed
  identity is an error), asks for the database, then opens the connection, then asks
  for the extension.
\<close>

theorem existence_probes:
  "((dbExists srv conn x = (False, None)) = (scan_err srv conn ''SELECT datname FROM pg_database WHERE datname=$1'' [x] = Some ErrNoRows)
     \<and> (snd (dbExists srv conn x) \<noteq> None) = (\<exists>e. scan_err srv conn ''SELECT datname FROM pg_database WHERE datname=$1'' [x] = Some e \<and> e \<noteq> ErrNoRows)
     \<and> (snd (dbExists srv conn x) \<noteq> None) = (\<exists>e. scan_err srv conn ''SELECT datname FROM pg_database WHERE datname=$1'' [x] = Some e \<and> dbExists srv conn x = (False, Some (Wrapf ''could not check if database exists: {{err}}'' e)))
     \<and> (dbExists srv conn x = (True, None)) = (scan_err srv conn ''SELECT datname FROM pg_database WHERE datname=$1'' [x] = None))
   \<and> ((roleExists srv conn x = (False, None)) = (scan_err srv conn ''SELECT 1 FROM pg_roles WHERE rolname=$1'' [x] = Some ErrNoRows)
     \<and> (snd (roleExists srv conn x) \<noteq> None) = (\<exists>e. scan_err srv conn ''SELECT 1 FROM pg_roles WHERE rolname=$1'' [x] = Some e \<and> e \<noteq> ErrNoRows)
     \<and> (snd (roleExists srv conn x) \<noteq> None) = (\<exists>e. scan_err srv conn ''SELECT 1 FROM pg_roles WHERE rolname=$1'' [x] = Some e \<and> roleExists srv conn x = (False, Some (Wrapf ''could not check if role exists: {{err}}'' e)))
     \<and> (roleExists srv conn x = (True, None)) = (scan_err srv conn ''SELECT 1 FROM pg_roles WHERE rolname=$1'' [x] = None))
   \<and> ((schemaExists srv conn x = (False, None)) = (scan_err srv conn ''SELECT 1 FROM pg_namespace WHERE nspname=$1'' [x] = Some ErrNoRows)
     \<and> (snd (schemaExists srv conn x) \<noteq> None) = (\<exists>e. scan_err srv conn ''SELECT 1 FROM pg_namespace WHERE nspname=$1'' [x] = Some e \<and> e \<noteq> ErrNoRows)
     \<and> (snd (schemaExists srv conn x) \<noteq> None) = (\<exists>e. scan_err srv conn ''SELECT 1 FROM pg_namespace WHERE nspname=$1'' [x] = Some e \<and> schemaExists srv conn x = (False, Some (Wrapf ''could not check if schema exists: {{err}}'' e)))
     \<and> (schemaExists srv conn x = (True, None)) = (scan_err srv conn ''SELECT 1 FROM pg_namespace WHERE nspname=$1'' [x] = None))
   \<and> ((resourcePostgreSQLRoleExists srv c rd = (False, None)) = (scan_err srv (databaseName c) ''SELECT rolname FROM pg_catalog.pg_roles WHERE rolname=$1'' [d_Id rd] = Some ErrNoRows)
     \<and> (snd (resourcePostgreSQLRoleExists srv c rd) \<noteq> None) = (\<exists>e. scan_err srv (databaseName c) ''SELECT rolname FROM pg_catalog.pg_roles WHERE rolname=$1'' [d_Id rd] = Some e \<and> e \<noteq> ErrNoRows)
     \<and> (snd (resourcePostgreSQLRoleExists srv c rd) \<noteq> None) = (\<exists>e. scan_err srv (databaseName c) ''SELECT rolname FROM pg_catalog.pg_roles WHERE rolname=$1'' [d_Id rd] = Some e \<and> resourcePostgreSQLRoleExists srv c rd = (False, Some (e)))
     \<and> (resourcePostgreSQLRoleExists srv c rd = (True, None)) = (scan_err srv (databaseName c) ''SELECT rolname FROM pg_catalog.pg_roles WHERE rolname=$1'' [d_Id rd] = None))
   \<and> (case getExtNames d of
      Inl err \<Rightarrow> resourcePostgreSQLExtensionExists srv c d = (False, Some err)
    | Inr (database, extName) \<Rightarrow>
        (let r1 = scan_err srv (databaseName c) ''SELECT datname FROM pg_database WHERE datname=$1'' [database];
             cerr = getDBConnection_err srv database;
             r2 = scan_err srv database ''SELECT extname FROM pg_catalog.pg_extension WHERE extname = $1'' [extName];
             res = resourcePostgreSQLExtensionExists srv c d
         in (res = (False, None)) = (r1 = Some ErrNoRows \<or> (r1 = None \<and> cerr = None \<and> r2 = Some ErrNoRows))
            \<and> (snd res \<noteq> None) =
                 ((\<exists>e. r1 = Some e \<and> e \<noteq> ErrNoRows)
                  \<or> (r1 = None \<and> ((\<exists>e. cerr = Some e) \<or> (\<exists>e. r2 = Some e \<and> e \<noteq> ErrNoRows))))
            \<and> (snd res \<noteq> None) =
                 ((\<exists>e. r1 = Some e \<and> res = (False, Some (Wrapf ''could not check if database exists: {{err}}'' e)))
                  \<or> (r1 = None \<and> ((\<exists>e. cerr = Some e \<and> res = (False, Some e))
                                   \<or> (cerr = None \<and> (\<exists>e. r2 = Some e \<and> res = (False, Some e))))))
            \<and> (res = (True, None)) = (r1 = None \<and> cerr = None \<and> r2 = None)))"
  apply (rule conjI, rule dbExists_probe)
  apply (rule conjI, rule roleExists_probe)
  apply (rule conjI, rule schemaExists_probe)
  apply (rule conjI, rule resourcePostgreSQLRoleExists_probe)
  apply (rule resourcePostgreSQLExtensionExists_probe)
  done

theorem existence_probes_witness:
  "dbExists (server_scan (Some ErrNoRows)) ''postgres'' ''mydb'' = (False, None)
   \<and> roleExists (server_scan (Some ErrNoRows)) ''postgres'' ''mydb'' = (False, None)
   \<and> schemaExists (server_scan (Some ErrNoRows)) ''postgres'' ''mydb'' = (False, None)
   \<and> resourcePostgreSQLRoleExists (server_scan (Some ErrNoRows)) client0 (roleData role0 role0) = (False, None)
   \<and> resourcePostgreSQLExtensionExists (server_scan (Some ErrNoRows)) client0 (ImportStatePassthrough ''mydb-pg_trgm'')
        = (False, None)
   \<and> snd (dbExists (server_scan (Some (DriverError ''timeout''))) ''postgres'' ''mydb'') \<noteq> None
   \<and> snd (resourcePostgreSQLExtensionExists (server_scan (Some (DriverError ''timeout''))) client0
             (ImportStatePassthrough ''mydb-pg_trgm'')) \<noteq> None"
proof -
  have g: "getExtNames (ImportStatePassthrough ''mydb-pg_trgm'') = Inr (''mydb'', ''pg_trgm'')"
    by (simp add: getExtNames_def ImportStatePassthrough_def Let_def)
  show ?thesis
    using existence_probes [of "server_scan (Some ErrNoRows)" "''postgres''" "''mydb''" client0
            "roleData role0 role0" "ImportStatePassthrough ''mydb-pg_trgm''"]
          existence_probes [of "server_scan (Some (DriverError ''timeout''))" "''postgres''" "''mydb''" client0
            "roleData role0 role0" "ImportStatePassthrough ''mydb-pg_trgm''"]
    by (simp add: g server_scan_def server_ok_def client0_def Let_def)
qed

section \<open>Updating an extension\<close>

text \<open>A step that sends one statement and passes its error on, in closed form.\<close>

lemma exec_step:
  "(case tx_Exec srv t q of (Some err, t1) \<Rightarrow> (Some (f err), t1) | (None, t1) \<Rightarrow> (None, t1))
     = (map_option f (exec_err srv (events t) q), t\<lparr>events := events t @ [Exec q]\<rparr>)"
  by (simp add: tx_Exec_def split: option.splits)

lemma setExtSchema_keeps:
  "commits (snd (setExtSchema srv d t)) = commits t \<and> status (snd (setExtSchema srv d t)) = status t"
  by (simp add: setExtSchema_def Let_def exec_step)

lemma setExtVersion_keeps:
  "commits (snd (setExtVersion srv d t)) = commits t \<and> status (snd (setExtVersion srv d t)) = status t"
  by (simp add: setExtVersion_def Let_def exec_step)

lemma startTransaction_fresh:
  "startTransaction srv c db = Inr t \<Longrightarrow> t = \<lparr>events = [], status = Open, commits = 0\<rparr>"
  by (auto simp: startTransaction_def Begin_def split: if_splits option.splits)

text \<open>
  Whatever the server answers, \<open>resourcePostgreSQLExtensionUpdate\<close> never calls
  \<open>Commit\<close>, and its transaction never ends committed.
\<close>

lemma extension_update_no_commit:
  "commit_calls (resourcePostgreSQLExtensionUpdate srv c d) = 0
   \<and> final_status (resourcePostgreSQLExtensionUpdate srv c d) \<noteq> Some Committed"
proof (cases "startTransaction srv c (extDatabaseAttr (planned d))")
  case (Inl e)
  then show ?thesis
    by (simp add: resourcePostgreSQLExtensionUpdate_def commit_calls_def final_status_def)
next
  case (Inr t)
  note t = startTransaction_fresh [OF Inr]
  obtain e1 t1 where s1: "setExtSchema srv d t = (e1, t1)" by (cases "setExtSchema srv d t")
  obtain e2 t2 where s2: "setExtVersion srv d t1 = (e2, t2)" by (cases "setExtVersion srv d t1")
  from setExtSchema_keeps [of srv d t] s1 t have k1: "commits t1 = 0" "status t1 = Open" by auto
  from setExtVersion_keeps [of srv d t1] s2 k1 have k2: "commits t2 = 0" "status t2 = Open" by auto
  show ?thesis using Inr s1 s2 k1 k2
    by (cases e1; cases e2)
       (simp_all add: resourcePostgreSQLExtensionUpdate_def commit_calls_def final_status_def tx_Rollback_def Let_def)
qed

text \<open>
  Claim C2 on the code. The version is the one attribute of an extension that an
  update can change (name, database and schema force a new resource). An update of
  \<open>pg_trgm\<close> from version 1.3 to 1.4, on a server where every call succeeds: the
  ALTER EXTENSION statement is sent and succeeds, the operation returns nil, \<open>Commit\<close>
  is never called and the transaction ends rolled back.
\<close>

theorem extension_update_version_change_rolled_back:
  "fst (resourcePostgreSQLExtensionUpdate (server_ok []) client0 (extData ext0 (ext0\<lparr>extVersionAttr := ''1.4''\<rparr>))) = None
   \<and> sent (resourcePostgreSQLExtensionUpdate (server_ok []) client0 (extData ext0 (ext0\<lparr>extVersionAttr := ''1.4''\<rparr>)))
       = [Exec (''ALTER EXTENSION '' @ QuoteIdentifier ''pg_trgm'' @ '' UPDATE TO '' @ QuoteIdentifier ''1.4'')]
   \<and> commit_calls (resourcePostgreSQLExtensionUpdate (server_ok []) client0 (extData ext0 (ext0\<lparr>extVersionAttr := ''1.4''\<rparr>))) = 0
   \<and> final_status (resourcePostgreSQLExtensionUpdate (server_ok []) client0 (extData ext0 (ext0\<lparr>extVersionAttr := ''1.4''\<rparr>)))
       = Some RolledBack"
  by (simp add: resourcePostgreSQLExtensionUpdate_def startTransaction_def Begin_def setExtSchema_def
        setExtVersion_def exec_step HasChange_def resourcePostgreSQLExtensionReadImpl_def getExtNames_def
        generateExtID_def SetId_def tx_Rollback_def sent_def commit_calls_def final_status_def
        server_ok_def client0_def ext0_def extData_def Let_def)

section \<open>Creating a role\<close>

lemma stringOpt_password_no_keyword:
  "''SUPERUSER'' \<notin> set (stringOpt a (rolePasswordAttr, ''PASSWORD''))
   \<and> ''NOSUPERUSER'' \<notin> set (stringOpt a (rolePasswordAttr, ''PASSWORD''))
   \<and> ''CREATEDB'' \<notin> set (stringOpt a (rolePasswordAttr, ''PASSWORD''))
   \<and> ''NOCREATEDB'' \<notin> set (stringOpt a (rolePasswordAttr, ''PASSWORD''))"
  by (simp add: stringOpt_def Let_def)

lemma stringOpt_valid_until_no_keyword:
  "''SUPERUSER'' \<notin> set (stringOpt a (roleValidUntilAttr, ''VALID UNTIL''))
   \<and> ''NOSUPERUSER'' \<notin> set (stringOpt a (roleValidUntilAttr, ''VALID UNTIL''))
   \<and> ''CREATEDB'' \<notin> set (stringOpt a (roleValidUntilAttr, ''VALID UNTIL''))
   \<and> ''NOCREATEDB'' \<notin> set (stringOpt a (roleValidUntilAttr, ''VALID UNTIL''))"
  by (simp add: stringOpt_def Let_def)

text \<open>
  The options of CREATE ROLE never hold the keyword SUPERUSER or NOSUPERUSER, and hold
  CREATEDB exactly when the attribute \<open>superuser\<close> is true, whatever
  \<open>create_database\<close> is.
\<close>

lemma createOpts_superuser_keyword:
  "''SUPERUSER'' \<notin> set (createOpts c a) \<and> ''NOSUPERUSER'' \<notin> set (createOpts c a)
   \<and> (''CREATEDB'' \<in> set (createOpts c a)) = v_superuser a
   \<and> (''NOCREATEDB'' \<in> set (createOpts c a)) = (\<not> v_superuser a)"
  using stringOpt_password_no_keyword [of a] stringOpt_valid_until_no_keyword [of a]
  by (simp add: createOpts_def stringOpts_def intOpts_def boolOpts_def intOpt_def boolOpt_def Let_def)

text \<open>
  Claim C3 on the code. For a superuser that may not create databases the statement
  holds CREATEDB and no SUPERUSER; for a role that is no superuser and may create
  databases it holds NOCREATEDB.
\<close>

theorem create_role_superuser_renders_createdb:
  "createRoleSQL client0 (role0\<lparr>v_superuser := True, v_create_database := False\<rparr>)
     = ''CREATE ROLE '' @ [dquote] @ ''r'' @ [dquote] @ '' WITH VALID UNTIL '' @ [squote] @ ''infinity'' @ [squote]
        @ '' CONNECTION LIMIT -1 CREATEDB NOCREATEROLE INHERIT NOLOGIN NOREPLICATION NOBYPASSRLS''
   \<and> createRoleSQL client0 (role0\<lparr>v_superuser := False, v_create_database := True\<rparr>)
     = ''CREATE ROLE '' @ [dquote] @ ''r'' @ [dquote] @ '' WITH VALID UNTIL '' @ [squote] @ ''infinity'' @ [squote]
        @ '' CONNECTION LIMIT -1 NOCREATEDB NOCREATEROLE INHERIT NOLOGIN NOREPLICATION NOBYPASSRLS''"
  by code_simp

text \<open>
  \<open>pqQuoteLiteral\<close> doubles every backslash and every single quote and leaves the
  other bytes, so reading the escaped literal back gives the value.
\<close>

lemma pqQuoteLiteral_Nil: "pqQuoteLiteral [] = []"
  by (simp add: pqQuoteLiteral_def strings_Replace_def)

lemma pqQuoteLiteral_Cons:
  "pqQuoteLiteral (c # s) =
     (if c = backslash then [backslash, backslash] else if c = squote then [squote, squote] else [c])
     @ pqQuoteLiteral s"
  by (simp add: pqQuoteLiteral_def strings_Replace_def Let_def squote_def backslash_def)

lemma pqQuoteLiteral_roundtrip: "unquoteLiteral (pqQuoteLiteral s) = s"
proof (induction s)
  case Nil
  show ?case by (simp add: pqQuoteLiteral_Nil)
next
  case (Cons c s)
  show ?case
  proof (cases "c = backslash \<or> c = squote")
    case True
    then show ?thesis using Cons.IH by (auto simp: pqQuoteLiteral_Cons)
  next
    case False
    show ?thesis
    proof (cases "pqQuoteLiteral s")
      case Nil
      with Cons.IH have "s = []" by simp
      with False show ?thesis by (simp add: pqQuoteLiteral_Cons pqQuoteLiteral_Nil)
    next
      case rest: (Cons c' cs)
      with False Cons.IH show ?thesis by (simp add: pqQuoteLiteral_Cons)
    qed
  qed
qed

text \<open>
  The password \<open>a'b\c\<close> of a new role is rendered as a literal with the quote and the
  backslash doubled.
\<close>

lemma create_role_password_escaped:
  "stringOpt (role0\<lparr>v_password := [CHR ''a'', squote, CHR ''b'', backslash, CHR ''c'']\<rparr>) (rolePasswordAttr, ''PASSWORD'')
     = [''ENCRYPTED'',
        ''PASSWORD '' @ [squote] @ [CHR ''a'', squote, squote, CHR ''b'', backslash, backslash, CHR ''c''] @ [squote]]"
  by code_simp

text \<open>
  Claim C4 on the code. On creation a password expiry other than \<open>infinity\<close> is
  rendered through \<open>pq.QuoteIdentifier\<close>, in double quotes; the update of the same
  attribute renders it through \<open>pqQuoteLiteral\<close>, in single quotes.
\<close>

theorem create_role_valid_until_quoted_as_identifier:
  "createRoleSQL client0 (role0\<lparr>v_valid_until := ''2038-01-01''\<rparr>)
     = ''CREATE ROLE '' @ [dquote] @ ''r'' @ [dquote] @ '' WITH VALID UNTIL '' @ [dquote] @ ''2038-01-01'' @ [dquote]
        @ '' CONNECTION LIMIT -1 NOCREATEDB NOCREATEROLE INHERIT NOLOGIN NOREPLICATION NOBYPASSRLS''
   \<and> sent (resourcePostgreSQLRoleUpdate (server_ok []) client0 (roleData role0 (role0\<lparr>v_valid_until := ''2038-01-01''\<rparr>)))
     = [Exec (''ALTER ROLE '' @ [dquote] @ ''r'' @ [dquote] @ '' VALID UNTIL '' @ [squote] @ ''2038-01-01'' @ [squote]),
        Query applicable_roles_query [''r'']]"
  by code_simp

section \<open>Updating a role: the order of the statements\<close>

lemma alters_targets: "alters role e \<Longrightarrow> targets role e"
  by (auto simp: alters_def)

lemma list_all_imp: "list_all P xs \<Longrightarrow> (\<And>e. P e \<Longrightarrow> Q e) \<Longrightarrow> list_all Q xs"
  by (induction xs) auto

lemma extends_with_mono:
  assumes "extends_with P f" and "\<And>e. P e \<Longrightarrow> Q e"
  shows "extends_with Q f"
  unfolding extends_with_def
proof
  fix t :: tx
  from assms(1) obtain ex where ex: "snd (f t) = t\<lparr>events := events t @ ex\<rparr>" "list_all P ex"
    unfolding extends_with_def by blast
  from ex(2) assms(2) have "list_all Q ex" by (rule list_all_imp)
  with ex(1) show "\<exists>ex. snd (f t) = t\<lparr>events := events t @ ex\<rparr> \<and> list_all Q ex" by blast
qed

lemma extends_with_none: "extends_with P (\<lambda>t. (r, t))"
  unfolding extends_with_def
proof
  fix t :: tx
  have "snd (r, t) = t\<lparr>events := events t @ []\<rparr> \<and> list_all P []" by simp
  then show "\<exists>ex. snd (r, t) = t\<lparr>events := events t @ ex\<rparr> \<and> list_all P ex" by blast
qed

lemma extends_with_one:
  assumes "P (Exec q)"
  shows "extends_with P (\<lambda>t. (g t, t\<lparr>events := events t @ [Exec q]\<rparr>))"
  unfolding extends_with_def
proof
  fix t :: tx
  have "snd (g t, t\<lparr>events := events t @ [Exec q]\<rparr>) = t\<lparr>events := events t @ [Exec q]\<rparr> \<and> list_all P [Exec q]"
    using assms by simp
  then show "\<exists>ex. snd (g t, t\<lparr>events := events t @ [Exec q]\<rparr>) = t\<lparr>events := events t @ ex\<rparr> \<and> list_all P ex"
    by blast
qed

lemma extends_with_andThen:
  assumes f: "extends_with P f" and g: "extends_with P g"
  shows "extends_with P (andThen f g)"
  unfolding extends_with_def
proof
  fix t :: tx
  obtain e1 t1 where ft: "f t = (e1, t1)" by (cases "f t")
  from f obtain ex1 where 1: "snd (f t) = t\<lparr>events := events t @ ex1\<rparr>" "list_all P ex1"
    unfolding extends_with_def by blast
  show "\<exists>ex. snd (andThen f g t) = t\<lparr>events := events t @ ex\<rparr> \<and> list_all P ex"
  proof (cases e1)
    case (Some e)
    then have "andThen f g t = f t" using ft by (simp add: andThen_def)
    with 1 show ?thesis by auto
  next
    case None
    then have a: "andThen f g t = g t1" using ft by (simp add: andThen_def)
    from g obtain ex2 where 2: "snd (g t1) = t1\<lparr>events := events t1 @ ex2\<rparr>" "list_all P ex2"
      unfolding extends_with_def by blast
    from 1 ft have t1: "t1 = t\<lparr>events := events t @ ex1\<rparr>" by simp
    have "snd (andThen f g t) = t\<lparr>events := events t @ (ex1 @ ex2)\<rparr> \<and> list_all P (ex1 @ ex2)"
      using a 1 2 t1 by simp
    then show ?thesis by blast
  qed
qed

lemma alters_with: "alters role (Exec (''ALTER ROLE '' @ QuoteIdentifier role @ '' WITH '' @ tok))"
  by (simp add: alters_def)

lemma alters_connlimit: "alters role (Exec (''ALTER ROLE '' @ QuoteIdentifier role @ '' CONNECTION LIMIT '' @ n))"
  by (simp add: alters_def)

lemma alters_valid_until: "alters role (Exec (''ALTER ROLE '' @ QuoteIdentifier role @ '' VALID UNTIL '' @ v))"
  by (simp add: alters_def)

lemma extends_with_if:
  "extends_with P f \<Longrightarrow> extends_with P g \<Longrightarrow> extends_with P (\<lambda>t. if b then f t else g t)"
  by (simp add: extends_with_def)

lemmas step_intros = extends_with_if extends_with_none extends_with_one alters_with alters_connlimit alters_valid_until

lemma setRoleBypassRLS_alters: "extends_with (alters (v_name (planned d))) (setRoleBypassRLS srv c d)"
  unfolding setRoleBypassRLS_def Let_def exec_step GetString.simps
  by (intro step_intros)

lemma setRoleConnLimit_alters: "extends_with (alters (v_name (planned d))) (setRoleConnLimit srv d)"
  unfolding setRoleConnLimit_def Let_def exec_step GetString.simps
  by (intro step_intros)

lemma setRoleCreateDB_alters: "extends_with (alters (v_name (planned d))) (setRoleCreateDB srv d)"
  unfolding setRoleCreateDB_def Let_def exec_step GetString.simps
  by (intro step_intros)

lemma setRoleCreateRole_alters: "extends_with (alters (v_name (planned d))) (setRoleCreateRole srv d)"
  unfolding setRoleCreateRole_def Let_def exec_step GetString.simps
  by (intro step_intros)

lemma setRoleInherit_alters: "extends_with (alters (v_name (planned d))) (setRoleInherit srv d)"
  unfolding setRoleInherit_def Let_def exec_step GetString.simps
  by (intro step_intros)

lemma setRoleLogin_alters: "extends_with (alters (v_name (planned d))) (setRoleLogin srv d)"
  unfolding setRoleLogin_def Let_def exec_step GetString.simps
  by (intro step_intros)

lemma setRoleReplication_alters: "extends_with (alters (v_name (planned d))) (setRoleReplication srv d)"
  unfolding setRoleReplication_def Let_def exec_step GetString.simps
  by (intro step_intros)

lemma setRoleSuperuser_alters: "extends_with (alters (v_name (planned d))) (setRoleSuperuser srv d)"
  unfolding setRoleSuperuser_def Let_def exec_step GetString.simps
  by (intro step_intros)

lemma setRoleValidUntil_alters: "extends_with (alters (v_name (planned d))) (setRoleValidUntil srv d)"
  unfolding setRoleValidUntil_def Let_def exec_step GetString.simps
  by (intro step_intros)

lemma targets_revokeStmt: "targets role (revokeStmt role g)"
  by (simp add: revokeStmt_def suffix_def)

lemma targets_grantStmt: "targets role (grantStmt role g)"
  by (simp add: grantStmt_def suffix_def)

lemma grantRoles_loop_Cons:
  "grantRoles_loop srv role (g # gs) =
     andThen (\<lambda>t. (map_option (Wrapf (''could not grant role '' @ g @ '' to '' @ role @ '': {{err}}''))
                     (exec_err srv (events t) (''GRANT '' @ QuoteIdentifier g @ '' TO '' @ QuoteIdentifier role)),
                  t\<lparr>events := events t @ [Exec (''GRANT '' @ QuoteIdentifier g @ '' TO '' @ QuoteIdentifier role)]\<rparr>))
             (grantRoles_loop srv role gs)"
  by (rule ext) (simp add: andThen_def tx_Exec_def split: option.splits)

lemma revokeRoles_loop_Cons:
  "revokeRoles_loop srv role (g # gs) =
     andThen (\<lambda>t. (map_option (Wrapf (''could not revoke role '' @ g @ '' from '' @ role @ '': {{err}}''))
                     (exec_err srv (events t) (''REVOKE '' @ QuoteIdentifier g @ '' FROM '' @ QuoteIdentifier role)),
                  t\<lparr>events := events t @ [Exec (''REVOKE '' @ QuoteIdentifier g @ '' FROM '' @ QuoteIdentifier role)]\<rparr>))
             (revokeRoles_loop srv role gs)"
  by (rule ext) (simp add: andThen_def tx_Exec_def split: option.splits)

lemma loop_Nil: "grantRoles_loop srv role [] = (\<lambda>t. (None, t))" "revokeRoles_loop srv role [] = (\<lambda>t. (None, t))"
  by (rule ext, simp)+

lemma grantRoles_loop_targets: "extends_with (targets role) (grantRoles_loop srv role gs)"
proof (induction gs)
  case Nil
  show ?case unfolding loop_Nil by (rule extends_with_none)
next
  case (Cons g gs)
  have "targets role (Exec (''GRANT '' @ QuoteIdentifier g @ '' TO '' @ QuoteIdentifier role))"
    using targets_grantStmt [of role g] by (simp only: grantStmt_def)
  then show ?case unfolding grantRoles_loop_Cons
    by (intro extends_with_andThen extends_with_one Cons.IH)
qed

lemma revokeRoles_loop_targets: "extends_with (targets role) (revokeRoles_loop srv role gs)"
proof (induction gs)
  case Nil
  show ?case unfolding loop_Nil by (rule extends_with_none)
next
  case (Cons g gs)
  have "targets role (Exec (''REVOKE '' @ QuoteIdentifier g @ '' FROM '' @ QuoteIdentifier role))"
    using targets_revokeStmt [of role g] by (simp only: revokeStmt_def)
  then show ?case unfolding revokeRoles_loop_Cons
    by (intro extends_with_andThen extends_with_one Cons.IH)
qed

lemma grantRoles_targets: "extends_with (targets (v_name (planned d))) (grantRoles srv d)"
  unfolding grantRoles_def Let_def GetString.simps by (rule grantRoles_loop_targets)

lemma revokeRoles_targets: "extends_with (targets (v_name (planned d))) (revokeRoles srv d)"
  unfolding extends_with_def
proof
  fix t :: tx
  let ?role = "v_name (planned d)"
  let ?q = "Query applicable_roles_query [?role]"
  let ?t1 = "t\<lparr>events := events t @ [?q]\<rparr>"
  have stop: "snd (revokeRoles srv d t) = ?t1 \<Longrightarrow>
      \<exists>ex. snd (revokeRoles srv d t) = t\<lparr>events := events t @ ex\<rparr> \<and> list_all (targets ?role) ex"
  proof -
    assume "snd (revokeRoles srv d t) = ?t1"
    then have "snd (revokeRoles srv d t) = t\<lparr>events := events t @ [?q]\<rparr> \<and> list_all (targets ?role) [?q]"
      by simp
    then show ?thesis by (rule exI)
  qed
  show "\<exists>ex. snd (revokeRoles srv d t) = t\<lparr>events := events t @ ex\<rparr> \<and> list_all (targets ?role) ex"
  proof (cases "query_rows srv (events t) applicable_roles_query [?role]")
    case (Inl e)
    then have "snd (revokeRoles srv d t) = ?t1"
      by (simp add: revokeRoles_def tx_Query_def Let_def)
    then show ?thesis by (rule stop)
  next
    case (Inr rows)
    show ?thesis
    proof (cases "scanRows ?role rows []")
      case (Inl e)
      with Inr have "snd (revokeRoles srv d t) = ?t1"
        by (simp add: revokeRoles_def tx_Query_def Let_def)
      then show ?thesis by (rule stop)
    next
      case scan: (Inr gs)
      have "\<forall>t. \<exists>ex. snd (revokeRoles_loop srv ?role gs t) = t\<lparr>events := events t @ ex\<rparr>
               \<and> list_all (targets ?role) ex"
        using revokeRoles_loop_targets [of ?role srv gs] unfolding extends_with_def .
      then have "\<exists>ex. snd (revokeRoles_loop srv ?role gs ?t1) = ?t1\<lparr>events := events ?t1 @ ex\<rparr>
               \<and> list_all (targets ?role) ex" by (rule spec)
      then obtain ex where
        ex: "snd (revokeRoles_loop srv ?role gs ?t1) = ?t1\<lparr>events := events ?t1 @ ex\<rparr>"
        and p: "list_all (targets ?role) ex"
        by blast
      have "revokeRoles srv d t = revokeRoles_loop srv ?role gs ?t1"
        using Inr scan by (simp add: revokeRoles_def tx_Query_def Let_def)
      with ex p have "snd (revokeRoles srv d t) = t\<lparr>events := events t @ (?q # ex)\<rparr>
          \<and> list_all (targets ?role) (?q # ex)"
        by simp
      then show ?thesis by (rule exI)
    qed
  qed
qed

lemma alters_step_targets: "extends_with (alters role) f \<Longrightarrow> extends_with (targets role) f"
  by (erule extends_with_mono) (rule alters_targets)

lemma roleUpdateSteps_targets: "extends_with (targets (v_name (planned d))) (roleUpdateSteps srv c d)"
  unfolding roleUpdateSteps_def
  apply (rule extends_with_andThen [OF alters_step_targets [OF setRoleBypassRLS_alters]])
  apply (rule extends_with_andThen [OF alters_step_targets [OF setRoleConnLimit_alters]])
  apply (rule extends_with_andThen [OF alters_step_targets [OF setRoleCreateDB_alters]])
  apply (rule extends_with_andThen [OF alters_step_targets [OF setRoleCreateRole_alters]])
  apply (rule extends_with_andThen [OF alters_step_targets [OF setRoleInherit_alters]])
  apply (rule extends_with_andThen [OF alters_step_targets [OF setRoleLogin_alters]])
  apply (rule extends_with_andThen [OF alters_step_targets [OF setRoleReplication_alters]])
  apply (rule extends_with_andThen [OF alters_step_targets [OF setRoleSuperuser_alters]])
  apply (rule extends_with_andThen [OF alters_step_targets [OF setRoleValidUntil_alters]])
  apply (rule extends_with_andThen [OF revokeRoles_targets grantRoles_targets])
  done

lemma setRoleName_closed:
  "setRoleName srv d t =
     (if \<not> HasChange d (\<lambda>a. GetString a roleNameAttr) then (None, d, t)
      else if v_name (planned d) = [] then (Some (Errorf ''Error setting role name to an empty string''), d, t)
      else (case exec_err srv (events t)
                   (''ALTER ROLE '' @ QuoteIdentifier (v_name (prior d)) @ '' RENAME TO '' @ QuoteIdentifier (v_name (planned d))) of
              Some err \<Rightarrow> (Some (Wrapf ''Error updating role NAME: {{err}}'' err), d,
                            t\<lparr>events := events t @ [renameStmt (v_name (prior d)) (v_name (planned d))]\<rparr>)
            | None \<Rightarrow> (None, SetId (v_name (planned d)) d,
                       t\<lparr>events := events t @ [renameStmt (v_name (prior d)) (v_name (planned d))]\<rparr>)))"
  by (simp add: setRoleName_def GetChange_def Let_def tx_Exec_def renameStmt_def split: option.splits)

lemma role_update_after_steps:
  assumes "begin_err srv (databaseName c) = None"
      and "setRoleName srv d \<lparr>events = [], status = Open, commits = 0\<rparr> = (None, d1, t1)"
      and "roleUpdateSteps srv c d1 t1 = (e2, t2)"
  shows "sent (resourcePostgreSQLRoleUpdate srv c d) = events t2"
    and "status t2 = Open \<Longrightarrow> commits t2 = 0 \<Longrightarrow>
         commit_calls (resourcePostgreSQLRoleUpdate srv c d) = (if e2 = None then 1 else 0)"
proof -
  obtain e3 t3 where c3: "tx_Commit srv t2 = (e3, t3)" by (cases "tx_Commit srv t2")
  have ev: "events t3 = events t2" using events_tx_Commit [of srv t2] c3 by simp
  show "sent (resourcePostgreSQLRoleUpdate srv c d) = events t2"
    using assms c3 ev
    by (cases e2; cases e3)
       (simp_all add: resourcePostgreSQLRoleUpdate_def Begin_def sent_def Let_def)
  assume o: "status t2 = Open" "commits t2 = 0"
  then have cm: "commits t3 = 1"
    using c3 by (auto simp: tx_Commit_def split: option.splits)
  show "commit_calls (resourcePostgreSQLRoleUpdate srv c d) = (if e2 = None then 1 else 0)"
    using assms c3 cm o
    by (cases e2; cases e3)
       (simp_all add: resourcePostgreSQLRoleUpdate_def Begin_def commit_calls_def Let_def)
qed

lemma role_update_name_failed:
  assumes "begin_err srv (databaseName c) = None"
      and "setRoleName srv d \<lparr>events = [], status = Open, commits = 0\<rparr> = (Some e, d1, t1)"
  shows "sent (resourcePostgreSQLRoleUpdate srv c d) = events t1"
    and "commit_calls (resourcePostgreSQLRoleUpdate srv c d) = commits t1"
  using assms
  by (simp_all add: resourcePostgreSQLRoleUpdate_def Begin_def sent_def commit_calls_def)

lemma role_update_no_begin:
  assumes "begin_err srv (databaseName c) = Some e"
  shows "sent (resourcePostgreSQLRoleUpdate srv c d) = []"
    and "commit_calls (resourcePostgreSQLRoleUpdate srv c d) = 0"
  using assms
  by (simp_all add: resourcePostgreSQLRoleUpdate_def Begin_def sent_def commit_calls_def)

text \<open>
  In a role update that changes the name, nothing is sent before the rename: either no
  statement is sent at all (the transaction could not begin, or the new name is empty
  and the update is refused), or the first statement is the rename from the old name
  to the new one and every later statement or query targets the new name.
\<close>

lemma role_update_rename_head:
  assumes "HasChange d (\<lambda>a. GetString a roleNameAttr)"
  shows "(sent (resourcePostgreSQLRoleUpdate srv c d) = []
            \<and> ((\<exists>e. begin_err srv (databaseName c) = Some e) \<or> v_name (planned d) = []))
       \<or> (\<exists>rest. sent (resourcePostgreSQLRoleUpdate srv c d)
                    = renameStmt (v_name (prior d)) (v_name (planned d)) # rest
                  \<and> list_all (targets (v_name (planned d))) rest)"
proof (cases "begin_err srv (databaseName c)")
  case (Some e)
  then show ?thesis using role_update_no_begin(1) [OF Some] by simp
next
  case None
  let ?t0 = "\<lparr>events = [], status = Open, commits = 0\<rparr>"
  let ?rn = "renameStmt (v_name (prior d)) (v_name (planned d))"
  let ?t1 = "?t0\<lparr>events := events ?t0 @ [?rn]\<rparr>"
  show ?thesis
  proof (cases "v_name (planned d) = []")
    case True
    then have "setRoleName srv d ?t0 = (Some (Errorf ''Error setting role name to an empty string''), d, ?t0)"
      using assms by (simp add: setRoleName_closed)
    from role_update_name_failed(1) [OF None this] True show ?thesis by simp
  next
    case False
    show ?thesis
    proof (cases "exec_err srv (events ?t0)
             (''ALTER ROLE '' @ QuoteIdentifier (v_name (prior d)) @ '' RENAME TO '' @ QuoteIdentifier (v_name (planned d)))")
      case (Some err)
      then have "setRoleName srv d ?t0 = (Some (Wrapf ''Error updating role NAME: {{err}}'' err), d, ?t1)"
        using assms False by (simp add: setRoleName_closed)
      from role_update_name_failed(1) [OF None this]
      have "sent (resourcePostgreSQLRoleUpdate srv c d) = ?rn # [] \<and> list_all (targets (v_name (planned d))) []"
        by simp
      then have "\<exists>rest. sent (resourcePostgreSQLRoleUpdate srv c d) = ?rn # rest
                  \<and> list_all (targets (v_name (planned d))) rest" by (rule exI)
      then show ?thesis by (rule disjI2)
    next
      case ok: None
      let ?d1 = "SetId (v_name (planned d)) d"
      have s: "setRoleName srv d ?t0 = (None, ?d1, ?t1)"
        using assms False ok by (simp add: setRoleName_closed)
      have pl: "planned ?d1 = planned d" by (simp add: SetId_def)
      obtain e2 t2 where st: "roleUpdateSteps srv c ?d1 ?t1 = (e2, t2)"
        by (cases "roleUpdateSteps srv c ?d1 ?t1")
      have "\<forall>t. \<exists>ex. snd (roleUpdateSteps srv c ?d1 t) = t\<lparr>events := events t @ ex\<rparr>
               \<and> list_all (targets (v_name (planned d))) ex"
        using roleUpdateSteps_targets [of ?d1 srv c] unfolding extends_with_def pl .
      then have "\<exists>ex. snd (roleUpdateSteps srv c ?d1 ?t1) = ?t1\<lparr>events := events ?t1 @ ex\<rparr>
               \<and> list_all (targets (v_name (planned d))) ex" by (rule spec)
      then obtain ex where ex: "snd (roleUpdateSteps srv c ?d1 ?t1) = ?t1\<lparr>events := events ?t1 @ ex\<rparr>"
        and p: "list_all (targets (v_name (planned d))) ex" by blast
      from ex st have "events t2 = ?rn # ex" by simp
      with role_update_after_steps(1) [OF None s st] p
      have "sent (resourcePostgreSQLRoleUpdate srv c d) = ?rn # ex \<and> list_all (targets (v_name (planned d))) ex"
        by simp
      then have "\<exists>rest. sent (resourcePostgreSQLRoleUpdate srv c d) = ?rn # rest
                  \<and> list_all (targets (v_name (planned d))) rest" by (rule exI)
      then show ?thesis by (rule disjI2)
    qed
  qed
qed

text \<open>
  The steps after the name, when every statement succeeds: each of them returns nil
  and has sent its statement if its attribute has changed, so together they send
  \<open>expectedAlters\<close>; then the granted roles are queried, revoked, and the desired roles
  granted.
\<close>

lemma succeeds_with_andThen:
  "succeeds_with ex1 f \<Longrightarrow> succeeds_with ex2 g \<Longrightarrow> succeeds_with (ex1 @ ex2) (andThen f g)"
  by (simp add: succeeds_with_def andThen_def)

lemma tail_after_andThen:
  "succeeds_with ex1 a \<Longrightarrow> tail_after ex2 g f \<Longrightarrow> tail_after (ex1 @ ex2) g (andThen a f)"
  by (simp add: succeeds_with_def tail_after_def andThen_def)

lemma tail_after_last:
  "succeeds_with ex1 a \<Longrightarrow> tail_after ex1 g (andThen a g)"
  by (simp add: succeeds_with_def tail_after_def andThen_def)

lemma setRoleBypassRLS_succeeds:
  assumes "\<forall>tr q. exec_err srv tr q = None" and "HasChange d v_bypass_row_level_security \<longrightarrow> featureSupported c featureRLS"
  shows "succeeds_with
     (if HasChange d v_bypass_row_level_security
      then [Exec (''ALTER ROLE '' @ QuoteIdentifier (v_name (planned d)) @ '' WITH '' @ (if v_bypass_row_level_security (planned d) then ''BYPASSRLS'' else ''NOBYPASSRLS''))]
      else [])
     (setRoleBypassRLS srv c d)"
  using assms by (simp add: succeeds_with_def setRoleBypassRLS_def Let_def exec_step)

lemma setRoleConnLimit_succeeds:
  assumes "\<forall>tr q. exec_err srv tr q = None"
  shows "succeeds_with
     (if HasChange d v_connection_limit
      then [Exec (''ALTER ROLE '' @ QuoteIdentifier (v_name (planned d)) @ '' CONNECTION LIMIT '' @ sprint_d (v_connection_limit (planned d)))]
      else [])
     (setRoleConnLimit srv d)"
  using assms by (simp add: succeeds_with_def setRoleConnLimit_def Let_def exec_step)

lemma setRoleCreateDB_succeeds:
  assumes "\<forall>tr q. exec_err srv tr q = None"
  shows "succeeds_with
     (if HasChange d v_create_database
      then [Exec (''ALTER ROLE '' @ QuoteIdentifier (v_name (planned d)) @ '' WITH '' @ (if v_create_database (planned d) then ''CREATEDB'' else ''NOCREATEDB''))]
      else [])
     (setRoleCreateDB srv d)"
  using assms by (simp add: succeeds_with_def setRoleCreateDB_def Let_def exec_step)

lemma setRoleCreateRole_succeeds:
  assumes "\<forall>tr q. exec_err srv tr q = None"
  shows "succeeds_with
     (if HasChange d v_create_role
      then [Exec (''ALTER ROLE '' @ QuoteIdentifier (v_name (planned d)) @ '' WITH '' @ (if v_create_role (planned d) then ''CREATEROLE'' else ''NOCREATEROLE''))]
      else [])
     (setRoleCreateRole srv d)"
  using assms by (simp add: succeeds_with_def setRoleCreateRole_def Let_def exec_step)

lemma setRoleInherit_succeeds:
  assumes "\<forall>tr q. exec_err srv tr q = None"
  shows "succeeds_with
     (if HasChange d v_inherit
      then [Exec (''ALTER ROLE '' @ QuoteIdentifier (v_name (planned d)) @ '' WITH '' @ (if v_inherit (planned d) then ''INHERIT'' else ''NOINHERIT''))]
      else [])
     (setRoleInherit srv d)"
  using assms by (simp add: succeeds_with_def setRoleInherit_def Let_def exec_step)

lemma setRoleLogin_succeeds:
  assumes "\<forall>tr q. exec_err srv tr q = None"
  shows "succeeds_with
     (if HasChange d v_login
      then [Exec (''ALTER ROLE '' @ QuoteIdentifier (v_name (planned d)) @ '' WITH '' @ (if v_login (planned d) then ''LOGIN'' else ''NOLOGIN''))]
      else [])
     (setRoleLogin srv d)"
  using assms by (simp add: succeeds_with_def setRoleLogin_def Let_def exec_step)

lemma setRoleReplication_succeeds:
  assumes "\<forall>tr q. exec_err srv tr q = None"
  shows "succeeds_with
     (if HasChange d v_replication
      then [Exec (''ALTER ROLE '' @ QuoteIdentifier (v_name (planned d)) @ '' WITH '' @ (if v_replication (planned d) then ''REPLICATION'' else ''NOREPLICATION''))]
      else [])
     (setRoleReplication srv d)"
  using assms by (simp add: succeeds_with_def setRoleReplication_def Let_def exec_step)

lemma setRoleSuperuser_succeeds:
  assumes "\<forall>tr q. exec_err srv tr q = None"
  shows "succeeds_with
     (if HasChange d v_superuser
      then [Exec (''ALTER ROLE '' @ QuoteIdentifier (v_name (planned d)) @ '' WITH '' @ (if v_superuser (planned d) then ''SUPERUSER'' else ''NOSUPERUSER''))]
      else [])
     (setRoleSuperuser srv d)"
  using assms by (simp add: succeeds_with_def setRoleSuperuser_def Let_def exec_step)

lemma setRoleValidUntil_succeeds:
  assumes "\<forall>tr q. exec_err srv tr q = None"
  shows "succeeds_with
     (if HasChange d v_valid_until \<and> v_valid_until (planned d) \<noteq> []
      then [Exec (''ALTER ROLE '' @ QuoteIdentifier (v_name (planned d)) @ '' VALID UNTIL '' @ [squote] @ pqQuoteLiteral (if strings_ToLower (v_valid_until (planned d)) = ''infinity'' then ''infinity'' else v_valid_until (planned d)) @ [squote])]
      else [])
     (setRoleValidUntil srv d)"
  using assms by (simp add: succeeds_with_def setRoleValidUntil_def Let_def exec_step)

lemma roleUpdateSteps_success:
  assumes A: "\<forall>tr q. exec_err srv tr q = None"
      and R: "HasChange d v_bypass_row_level_security \<longrightarrow> featureSupported c featureRLS"
  shows "tail_after (expectedAlters d) (andThen (revokeRoles srv d) (grantRoles srv d)) (roleUpdateSteps srv c d)"
  unfolding roleUpdateSteps_def expectedAlters_def
  apply (rule tail_after_andThen [OF setRoleBypassRLS_succeeds [OF A R]])
  apply (rule tail_after_andThen [OF setRoleConnLimit_succeeds [OF A]])
  apply (rule tail_after_andThen [OF setRoleCreateDB_succeeds [OF A]])
  apply (rule tail_after_andThen [OF setRoleCreateRole_succeeds [OF A]])
  apply (rule tail_after_andThen [OF setRoleInherit_succeeds [OF A]])
  apply (rule tail_after_andThen [OF setRoleLogin_succeeds [OF A]])
  apply (rule tail_after_andThen [OF setRoleReplication_succeeds [OF A]])
  apply (rule tail_after_andThen [OF setRoleSuperuser_succeeds [OF A]])
  apply (rule tail_after_last [OF setRoleValidUntil_succeeds [OF A]])
  done

lemma grantRoles_loop_succeeds:
  "\<forall>tr q. exec_err srv tr q = None \<Longrightarrow> succeeds_with (map (grantStmt role) gs) (grantRoles_loop srv role gs)"
proof (induction gs)
  case Nil
  show ?case by (simp add: succeeds_with_def)
next
  case (Cons g gs)
  then show ?case by (simp add: succeeds_with_def tx_Exec_def grantStmt_def)
qed

lemma revokeRoles_loop_succeeds:
  "\<forall>tr q. exec_err srv tr q = None \<Longrightarrow> succeeds_with (map (revokeStmt role) gs) (revokeRoles_loop srv role gs)"
proof (induction gs)
  case Nil
  show ?case by (simp add: succeeds_with_def)
next
  case (Cons g gs)
  then show ?case by (simp add: succeeds_with_def tx_Exec_def revokeStmt_def)
qed

lemma memberships_success:
  assumes A: "\<forall>tr q. exec_err srv tr q = None"
      and Q: "query_rows srv (events t) applicable_roles_query [v_name (planned d)] = Inr rows"
      and S: "scanRows (v_name (planned d)) rows [] = Inr C"
  shows "andThen (revokeRoles srv d) (grantRoles srv d) t =
           (None, t\<lparr>events := events t @ Query applicable_roles_query [v_name (planned d)]
                                 # map (revokeStmt (v_name (planned d))) C
                                 @ map (grantStmt (v_name (planned d))) (v_roles (planned d))\<rparr>)"
proof -
  let ?role = "v_name (planned d)"
  let ?t1 = "t\<lparr>events := events t @ [Query applicable_roles_query [?role]]\<rparr>"
  have r: "revokeRoles srv d t = revokeRoles_loop srv ?role C ?t1"
    using Q S by (simp add: revokeRoles_def tx_Query_def Let_def)
  have r2: "revokeRoles_loop srv ?role C ?t1 = (None, ?t1\<lparr>events := events ?t1 @ map (revokeStmt ?role) C\<rparr>)"
    using revokeRoles_loop_succeeds [OF A, of ?role C] by (simp only: succeeds_with_def)
  have g: "\<And>t'. grantRoles srv d t' = (None, t'\<lparr>events := events t' @ map (grantStmt ?role) (v_roles (planned d))\<rparr>)"
    using grantRoles_loop_succeeds [OF A, of ?role "v_roles (planned d)"]
    by (simp add: succeeds_with_def grantRoles_def)
  show ?thesis
    by (simp add: andThen_def r r2 g)
qed

lemma expectedAlters_SetId: "expectedAlters (SetId n d) = expectedAlters d"
  by (simp add: expectedAlters_def SetId_def HasChange_def)

lemma role_update_success_trace:
  assumes N: "HasChange d (\<lambda>a. GetString a roleNameAttr)"
      and B: "begin_err srv (databaseName c) = None"
      and E: "v_name (planned d) \<noteq> []"
      and A: "\<forall>tr q. exec_err srv tr q = None"
      and R: "HasChange d v_bypass_row_level_security \<longrightarrow> featureSupported c featureRLS"
      and Q: "query_rows srv (renameStmt (v_name (prior d)) (v_name (planned d)) # expectedAlters d)
                applicable_roles_query [v_name (planned d)] = Inr rows"
      and S: "scanRows (v_name (planned d)) rows [] = Inr C"
  shows "sent (resourcePostgreSQLRoleUpdate srv c d)
           = renameStmt (v_name (prior d)) (v_name (planned d)) # expectedAlters d
             @ Query applicable_roles_query [v_name (planned d)]
               # map (revokeStmt (v_name (planned d))) C
               @ map (grantStmt (v_name (planned d))) (v_roles (planned d))"
proof -
  let ?t0 = "\<lparr>events = [], status = Open, commits = 0\<rparr>"
  let ?n = "v_name (planned d)"
  let ?rn = "renameStmt (v_name (prior d)) ?n"
  let ?d1 = "SetId ?n d"
  let ?t1 = "?t0\<lparr>events := events ?t0 @ [?rn]\<rparr>"
  let ?t1' = "?t1\<lparr>events := events ?t1 @ expectedAlters ?d1\<rparr>"
  let ?t2 = "?t1'\<lparr>events := events ?t1' @ Query applicable_roles_query [?n]
               # map (revokeStmt ?n) C @ map (grantStmt ?n) (v_roles (planned d))\<rparr>"
  have s: "setRoleName srv d ?t0 = (None, ?d1, ?t1)"
    using N E A by (simp add: setRoleName_closed)
  have pl: "planned ?d1 = planned d" and pr: "prior ?d1 = prior d" by (simp_all add: SetId_def)
  have R1: "HasChange ?d1 v_bypass_row_level_security \<longrightarrow> featureSupported c featureRLS"
    using R by (simp add: HasChange_def SetId_def)
  have "\<forall>t. roleUpdateSteps srv c ?d1 t
          = andThen (revokeRoles srv ?d1) (grantRoles srv ?d1) (t\<lparr>events := events t @ expectedAlters ?d1\<rparr>)"
    using roleUpdateSteps_success [OF A R1] unfolding tail_after_def .
  then have st1: "roleUpdateSteps srv c ?d1 ?t1 = andThen (revokeRoles srv ?d1) (grantRoles srv ?d1) ?t1'"
    by (rule spec)
  have ev: "events ?t1' = ?rn # expectedAlters d"
    by (simp add: expectedAlters_SetId)
  have Q1: "query_rows srv (events ?t1') applicable_roles_query [v_name (planned ?d1)] = Inr rows"
    unfolding ev pl by (rule Q)
  have S1: "scanRows (v_name (planned ?d1)) rows [] = Inr C"
    unfolding pl by (rule S)
  have "andThen (revokeRoles srv ?d1) (grantRoles srv ?d1) ?t1' = (None, ?t2)"
    using memberships_success [OF A Q1 S1] unfolding pl .
  with st1 have st: "roleUpdateSteps srv c ?d1 ?t1 = (None, ?t2)" by simp
  have "events ?t2 = ?rn # expectedAlters d @ Query applicable_roles_query [?n]
               # map (revokeStmt ?n) C @ map (grantStmt ?n) (v_roles (planned d))"
    by (simp add: expectedAlters_SetId)
  then show ?thesis
    unfolding role_update_after_steps(1) [OF B s st] .
qed

lemma connLimit_in_expectedAlters:
  "HasChange d v_connection_limit \<Longrightarrow>
   Exec (''ALTER ROLE '' @ QuoteIdentifier (v_name (planned d)) @ '' CONNECTION LIMIT ''
           @ sprint_d (v_connection_limit (planned d))) \<in> set (expectedAlters d)"
  by (simp add: expectedAlters_def)

text \<open>
  Claim C5. In a role update that changes the name, nothing is sent before the rename:
  either no statement is sent at all (the transaction could not begin, or the new name
  is empty and the update is refused), or the first statement is the rename from the
  old name to the new one and every later statement or query targets the new name.
  When the transaction begins, the new name is not empty, every statement succeeds and
  the catalog query answers rows that scan to the roles \<open>C\<close>, the statements sent are
  exactly: the rename; then, on the new name, the ALTER ROLE statement of every other
  changed attribute, in the order of the calls; then the catalog query for the new
  name; then the REVOKE of every role of \<open>C\<close> from the new name; then the GRANT of
  every desired role to the new name. A changed connection limit \<open>n\<close> is among them as
  \<open>ALTER ROLE new CONNECTION LIMIT n\<close>.
\<close>

theorem role_update_rename_first:
  assumes "HasChange d (\<lambda>a. GetString a roleNameAttr)"
  shows "((sent (resourcePostgreSQLRoleUpdate srv c d) = []
            \<and> ((\<exists>e. begin_err srv (databaseName c) = Some e) \<or> v_name (planned d) = []))
          \<or> (\<exists>rest. sent (resourcePostgreSQLRoleUpdate srv c d)
                    = renameStmt (v_name (prior d)) (v_name (planned d)) # rest
                  \<and> list_all (targets (v_name (planned d))) rest))
       \<and> (begin_err srv (databaseName c) = None \<and> v_name (planned d) \<noteq> []
            \<and> (\<forall>tr q. exec_err srv tr q = None)
            \<and> (HasChange d v_bypass_row_level_security \<longrightarrow> featureSupported c featureRLS)
            \<and> query_rows srv (renameStmt (v_name (prior d)) (v_name (planned d)) # expectedAlters d)
                  applicable_roles_query [v_name (planned d)] = Inr rows
            \<and> scanRows (v_name (planned d)) rows [] = Inr C
          \<longrightarrow> sent (resourcePostgreSQLRoleUpdate srv c d)
                = renameStmt (v_name (prior d)) (v_name (planned d)) # expectedAlters d
                  @ Query applicable_roles_query [v_name (planned d)]
                    # map (revokeStmt (v_name (planned d))) C
                    @ map (grantStmt (v_name (planned d))) (v_roles (planned d)))
       \<and> (HasChange d v_connection_limit
          \<longrightarrow> Exec (''ALTER ROLE '' @ QuoteIdentifier (v_name (planned d)) @ '' CONNECTION LIMIT ''
                      @ sprint_d (v_connection_limit (planned d))) \<in> set (expectedAlters d))"
proof (intro conjI impI)
  show "(sent (resourcePostgreSQLRoleUpdate srv c d) = []
            \<and> ((\<exists>e. begin_err srv (databaseName c) = Some e) \<or> v_name (planned d) = []))
          \<or> (\<exists>rest. sent (resourcePostgreSQLRoleUpdate srv c d)
                    = renameStmt (v_name (prior d)) (v_name (planned d)) # rest
                  \<and> list_all (targets (v_name (planned d))) rest)"
    using assms by (rule role_update_rename_head)
next
  assume h: "begin_err srv (databaseName c) = None \<and> v_name (planned d) \<noteq> []
            \<and> (\<forall>tr q. exec_err srv tr q = None)
            \<and> (HasChange d v_bypass_row_level_security \<longrightarrow> featureSupported c featureRLS)
            \<and> query_rows srv (renameStmt (v_name (prior d)) (v_name (planned d)) # expectedAlters d)
                  applicable_roles_query [v_name (planned d)] = Inr rows
            \<and> scanRows (v_name (planned d)) rows [] = Inr C"
  show "sent (resourcePostgreSQLRoleUpdate srv c d)
                = renameStmt (v_name (prior d)) (v_name (planned d)) # expectedAlters d
                  @ Query applicable_roles_query [v_name (planned d)]
                    # map (revokeStmt (v_name (planned d))) C
                    @ map (grantStmt (v_name (planned d))) (v_roles (planned d))"
    by (rule role_update_success_trace [OF assms h [THEN conjunct1] h [THEN conjunct2, THEN conjunct1]
          h [THEN conjunct2, THEN conjunct2, THEN conjunct1]
          h [THEN conjunct2, THEN conjunct2, THEN conjunct2, THEN conjunct1]
          h [THEN conjunct2, THEN conjunct2, THEN conjunct2, THEN conjunct2, THEN conjunct1]
          h [THEN conjunct2, THEN conjunct2, THEN conjunct2, THEN conjunct2, THEN conjunct2]])
next
  assume "HasChange d v_connection_limit"
  then show "Exec (''ALTER ROLE '' @ QuoteIdentifier (v_name (planned d)) @ '' CONNECTION LIMIT ''
                      @ sprint_d (v_connection_limit (planned d))) \<in> set (expectedAlters d)"
    by (rule connLimit_in_expectedAlters)
qed

theorem role_update_rename_first_witness:
  "sent (resourcePostgreSQLRoleUpdate (server_ok [''g'']) client0
           (roleData role0 (role0\<lparr>v_name := ''r2'', v_connection_limit := 5, v_roles := [''h'']\<rparr>)))
     = [renameStmt ''r'' ''r2'',
        Exec (''ALTER ROLE '' @ QuoteIdentifier ''r2'' @ '' CONNECTION LIMIT 5''),
        Query applicable_roles_query [''r2''],
        revokeStmt ''r2'' ''g'',
        grantStmt ''r2'' ''h'']"
proof -
  let ?d = "roleData role0 (role0\<lparr>v_name := ''r2'', v_connection_limit := 5, v_roles := [''h'']\<rparr>)"
  have n: "HasChange ?d (\<lambda>a. GetString a roleNameAttr)"
    by (simp add: HasChange_def roleData_def role0_def)
  have ea: "expectedAlters ?d = [Exec (''ALTER ROLE '' @ QuoteIdentifier ''r2'' @ '' CONNECTION LIMIT 5'')]"
    by code_simp
  have h: "begin_err (server_ok [''g'']) (databaseName client0) = None \<and> v_name (planned ?d) \<noteq> []
        \<and> (\<forall>tr q. exec_err (server_ok [''g'']) tr q = None)
        \<and> (HasChange ?d v_bypass_row_level_security \<longrightarrow> featureSupported client0 featureRLS)
        \<and> query_rows (server_ok [''g'']) (renameStmt (v_name (prior ?d)) (v_name (planned ?d)) # expectedAlters ?d)
              applicable_roles_query [v_name (planned ?d)] = Inr [Inr ''g'']
        \<and> scanRows (v_name (planned ?d)) [Inr ''g''] [] = Inr [''g'']"
    by (simp add: server_ok_def client0_def roleData_def role0_def)
  have v: "v_name (prior ?d) = ''r''" "v_name (planned ?d) = ''r2''" "v_roles (planned ?d) = [''h'']"
    by (simp_all add: roleData_def role0_def)
  from role_update_rename_first [OF n, of "server_ok [''g'']" client0 "[Inr ''g'']" "[''g'']"] h
  have "sent (resourcePostgreSQLRoleUpdate (server_ok [''g'']) client0 ?d)
          = renameStmt (v_name (prior ?d)) (v_name (planned ?d)) # expectedAlters ?d
            @ Query applicable_roles_query [v_name (planned ?d)]
              # map (revokeStmt (v_name (planned ?d))) [''g'']
              @ map (grantStmt (v_name (planned ?d))) (v_roles (planned ?d))"
    by blast
  then show ?thesis unfolding ea v by simp
qed

section \<open>Updating a role: memberships\<close>





















end
